theory Spec2Isabelle
  imports Complex_Main "HOL-Library.Word"
begin

text \<open>
  The display formatting of columnar cells (the module of \<open>format\<close>,
  \<open>formatPeriodFromFreq\<close> and \<open>convertTimestampToSeconds\<close>): a value, the name of its
  type and the arrow field of its column are rendered as a string. The first part of the
  theory embeds the module and what it uses of ECMAScript, lodash, apache-arrow and
  moment.js; the second part proves its properties.
\<close>

section \<open>ECMAScript numbers\<close>

text \<open>
  A JavaScript \<open>number\<close> is an IEEE 754 double. A finite double is modelled by its exact
  rational value (the two zeros are not distinguished), and every arithmetic operation
  rounds its exact result to the nearest double, ties to even: 53 significant bits,
  smallest exponent -1022 (subnormals included), overflow to an infinity.
  A \<open>bigint\<close> is an \<open>int\<close>.
\<close>

datatype number = Fin rat | NaN | PosInf | NegInf

datatype js_error = TypeError | SyntaxError | RangeError | Error string

function bit_length :: "int \<Rightarrow> int" where
  "bit_length n = (if n \<le> 0 then 0 else 1 + bit_length (n div 2))"
  by pat_completeness auto
termination
  by (relation "measure nat") auto

declare bit_length.simps [simp del]

function pow2 :: "int \<Rightarrow> rat" where
  \<comment> \<open>\<open>2\<close> to an integer power, by repeated squaring\<close>
  "pow2 e = (if e < 0 then 1 / pow2 (- e)
             else if e = 0 then 1
             else if even e then pow2 (e div 2) * pow2 (e div 2)
             else 2 * pow2 (e - 1))"
  by pat_completeness auto
termination
  by (relation "measure (\<lambda>e. if e < 0 then nat (2 - 2 * e) else nat (2 * e))") auto

declare pow2.simps [simp del]

definition binary_exponent :: "rat \<Rightarrow> int" where
  \<comment> \<open>for \<open>0 < a\<close>: the \<open>e\<close> with \<open>2 ^ e \<le> a < 2 ^ (e + 1)\<close>\<close>
  "binary_exponent a =
     (let (p, q) = quotient_of a;
          e0 = bit_length p - bit_length q
      in if pow2 e0 \<le> a then e0 else e0 - 1)"

definition round_half_even :: "rat \<Rightarrow> int" where
  "round_half_even y =
     (let m = \<lfloor>y\<rfloor>; f = y - of_int m
      in if f < 1 / 2 then m else if 1 / 2 < f then m + 1
         else if even m then m else m + 1)"

definition round_double :: "rat \<Rightarrow> number" where
  "round_double r =
     (if r = 0 then Fin 0
      else let a = \<bar>r\<bar>;
               e = max (binary_exponent a) (- 1022);
               q = pow2 (e - 52);
               m = round_half_even (a / q)
           in if 1024 \<le> e \<or> (e = 1023 \<and> m = 2 ^ 53)
              then (if 0 < r then PosInf else NegInf)
              else Fin (sgn r * (of_int m * q)))"

definition MAX_SAFE_INTEGER :: int where
  "MAX_SAFE_INTEGER = 2 ^ 53 - 1"

definition is_integral :: "rat \<Rightarrow> bool" where
  "is_integral r = (of_int \<lfloor>r\<rfloor> = r)"

fun Number_isFinite :: "number \<Rightarrow> bool" where
  "Number_isFinite (Fin r) = True"
| "Number_isFinite _ = False"

fun Number_isSafeInteger :: "number \<Rightarrow> bool" where
  "Number_isSafeInteger (Fin r) = (is_integral r \<and> \<bar>r\<bar> \<le> of_int MAX_SAFE_INTEGER)"
| "Number_isSafeInteger _ = False"

definition Number_of_bigint :: "int \<Rightarrow> number" where
  \<comment> \<open>\<open>Number(b)\<close> for a bigint \<open>b\<close>\<close>
  "Number_of_bigint b = round_double (of_int b)"

fun number_div :: "number \<Rightarrow> number \<Rightarrow> number" where
  \<comment> \<open>the operator \<open>/\<close> on numbers; a zero divisor is taken as \<open>+0\<close>\<close>
  "number_div NaN _ = NaN"
| "number_div _ NaN = NaN"
| "number_div (Fin a) (Fin b) =
     (if b = 0 then (if a = 0 then NaN else if 0 < a then PosInf else NegInf)
      else round_double (a / b))"
| "number_div (Fin a) _ = Fin 0"
| "number_div PosInf (Fin b) = (if b < 0 then NegInf else PosInf)"
| "number_div NegInf (Fin b) = (if b < 0 then PosInf else NegInf)"
| "number_div _ _ = NaN"

definition bigint_div :: "int \<Rightarrow> int \<Rightarrow> js_error + int" where
  \<comment> \<open>the operator \<open>/\<close> on bigints truncates towards zero; a zero divisor is a RangeError\<close>
  "bigint_div a b =
     (if b = 0 then Inl RangeError else Inr (sgn a * sgn b * (\<bar>a\<bar> div \<bar>b\<bar>)))"

section \<open>Timestamp unit conversion\<close>

text \<open>A \<open>number | bigint\<close> argument.\<close>

datatype timestamp = TNumber number | TBigInt int

fun Number_of :: "timestamp \<Rightarrow> number" where
  "Number_of (TNumber n) = n"
| "Number_of (TBigInt b) = Number_of_bigint b"

text \<open>The members of apache-arrow's \<open>TimeUnit\<close> enum, as the source's comment gives them.\<close>

definition TimeUnit_SECOND :: number where "TimeUnit_SECOND = Fin 0"
definition TimeUnit_MILLISECOND :: number where "TimeUnit_MILLISECOND = Fin 1"
definition TimeUnit_MICROSECOND :: number where "TimeUnit_MICROSECOND = Fin 2"
definition TimeUnit_NANOSECOND :: number where "TimeUnit_NANOSECOND = Fin 3"

definition unitAdjustment :: "number \<Rightarrow> int option" where
  "unitAdjustment unit =
     (if unit = TimeUnit_MILLISECOND then Some 1000
      else if unit = TimeUnit_MICROSECOND then Some (1000 * 1000)
      else if unit = TimeUnit_NANOSECOND then Some (1000 * 1000 * 1000)
      else None)"

definition convertTimestampToSeconds :: "timestamp \<Rightarrow> number \<Rightarrow> js_error + number" where
  "convertTimestampToSeconds ts unit =
     (case unitAdjustment unit of
        None \<Rightarrow> Inr (Number_of ts)
      | Some adj \<Rightarrow>
          (case ts of
             TBigInt b \<Rightarrow>
               if \<not> Number_isSafeInteger (Number_of_bigint b)
               then (case bigint_div b adj of
                       Inl e \<Rightarrow> Inl e
                     | Inr q \<Rightarrow> Inr (Number_of_bigint q))
               else Inr (number_div (Number_of ts) (Fin (of_int adj)))
           | TNumber n \<Rightarrow> Inr (number_div (Number_of ts) (Fin (of_int adj)))))"

text \<open>
  The conversion as the specification words it: the divisor of each unit (1 for the
  seconds unit and for every unknown unit code), a big integer whose numeric conversion is
  not a safe integer divided as a big integer with the fractional remainder dropped and
  only the quotient converted, every other value converted and then divided.
\<close>

definition unit_divisor :: "number \<Rightarrow> int" where
  "unit_divisor unit =
     (if unit = TimeUnit_SECOND then 1
      else if unit = TimeUnit_MILLISECOND then 10 ^ 3
      else if unit = TimeUnit_MICROSECOND then 10 ^ 6
      else if unit = TimeUnit_NANOSECOND then 10 ^ 9
      else 1)"

definition quotient_dropping_remainder :: "int \<Rightarrow> int \<Rightarrow> int" where
  "quotient_dropping_remainder a d = (if 0 \<le> a then a div d else - ((- a) div d))"

definition toSeconds_spec :: "timestamp \<Rightarrow> number \<Rightarrow> number" where
  "toSeconds_spec ts unit =
     (let d = unit_divisor unit;
          divided = (if d = 1 then Number_of ts
                     else number_div (Number_of ts) (Fin (of_int d)))
      in case ts of
           TNumber n \<Rightarrow> divided
         | TBigInt b \<Rightarrow>
             if Number_isSafeInteger (Number_of_bigint b) then divided
             else Number_of_bigint (quotient_dropping_remainder b d))"

section \<open>ECMAScript and lodash string operations\<close>

text \<open>
  A JavaScript string is modelled as a \<open>string\<close> (a list of 8-bit characters); every
  string the formatters build or test is ASCII.
\<close>

definition startsWith :: "string \<Rightarrow> string \<Rightarrow> bool" where
  "startsWith s p = (take (length p) s = p)"

definition padStart :: "string \<Rightarrow> int \<Rightarrow> char \<Rightarrow> string" where
  \<comment> \<open>\<open>s.padStart(n, c)\<close> for a one-character filler\<close>
  "padStart s n c = replicate (nat (n - int (length s))) c @ s"

definition relative_index :: "nat \<Rightarrow> int \<Rightarrow> nat" where
  \<comment> \<open>an index argument of \<open>slice\<close>: a negative one counts from the end, both are clamped\<close>
  "relative_index len i = (if i < 0 then nat (max (int len + i) 0) else min (nat i) len)"

definition slice :: "string \<Rightarrow> int \<Rightarrow> int \<Rightarrow> string" where
  \<comment> \<open>\<open>s.slice(start, end)\<close>\<close>
  "slice s start end =
     (let from = relative_index (length s) start; to = relative_index (length s) end
      in take (to - from) (drop from s))"

definition slice_from :: "string \<Rightarrow> int \<Rightarrow> string" where
  \<comment> \<open>\<open>s.slice(start)\<close>\<close>
  "slice_from s start = drop (relative_index (length s) start) s"

definition trimEnd :: "string \<Rightarrow> char \<Rightarrow> string" where
  \<comment> \<open>lodash's \<open>trimEnd(s, c)\<close> for a one-character set\<close>
  "trimEnd s c = rev (dropWhile (\<lambda>x. x = c) (rev s))"

definition digit_char :: "int \<Rightarrow> char" where
  "digit_char d = ''0123456789'' ! nat d"

function nat_digits :: "int \<Rightarrow> string" where
  \<comment> \<open>the decimal digits of a non-negative integer, no leading zero\<close>
  "nat_digits n =
     (if n < 10 then [digit_char n] else nat_digits (n div 10) @ [digit_char (n mod 10)])"
  by pat_completeness auto
termination
  by (relation "measure nat") auto

declare nat_digits.simps [simp del]

definition bigint_toString :: "int \<Rightarrow> string" where
  \<comment> \<open>\<open>String(b)\<close> for a bigint \<open>b\<close>\<close>
  "bigint_toString b = (if b < 0 then CHR ''-'' # nat_digits (- b) else nat_digits b)"

section \<open>Arrow fields\<close>

text \<open>
  An apache-arrow \<open>Field\<close>: the class of its \<open>type\<close> (what the source tests with
  \<open>instanceof\<close>), the optional \<open>unit\<close>, \<open>scale\<close> and \<open>timezone\<close> of the type, the
  child fields of the type, and the \<open>metadata\<close> map.
\<close>

datatype arrow_class = Struct | Timestamp | Float | OtherType

datatype field =
  Field (type_kind: arrow_class) (type_unit: "number option") (type_scale: "int option")
        (type_timezone: "string option") (type_children: "field list")
        (metadata: "(string \<times> string) list")

definition metadata_get :: "field \<Rightarrow> string \<Rightarrow> string option" where
  "metadata_get f k = map_of (metadata f) k"

section \<open>Decimal formatting\<close>

text \<open>
  apache-arrow's \<open>util.bigNumToString(new util.BN(value))\<close> for a \<open>Uint32Array\<close> of
  little-endian 32-bit words: a 16-byte buffer is a signed (two's complement) decimal
  and prints with its minus sign, any other buffer is unsigned.
\<close>

fun words_value :: "32 word list \<Rightarrow> int" where
  "words_value [] = 0"
| "words_value (w # ws) = uint w + 2 ^ 32 * words_value ws"

definition bn_value :: "32 word list \<Rightarrow> int" where
  "bn_value ws =
     (let v = words_value ws
      in if length ws = 4 \<and> 2 ^ 127 \<le> v then v - 2 ^ 128 else v)"

definition bigNumToString :: "32 word list \<Rightarrow> string" where
  "bigNumToString ws = bigint_toString (bn_value ws)"

definition formatDecimal :: "32 word list \<Rightarrow> field option \<Rightarrow> string" where
  "formatDecimal val fld =
     (let scale = (case fld of None \<Rightarrow> 0
                   | Some f \<Rightarrow> (case type_scale f of None \<Rightarrow> 0 | Some sc \<Rightarrow> sc));
          numString = padStart (bigNumToString val) scale (CHR ''0'')
      in if scale = 0 then numString
         else let neg = startsWith numString ''-'';
                  sign = (if neg then ''-'' else []);
                  numString = (if neg then slice_from numString 1 else numString);
                  w = slice numString 0 (- scale);
                  wholePart = (if w = [] then ''0'' else w);
                  decimalPart = trimEnd (slice_from numString (- scale)) (CHR ''0'')
              in sign @ wholePart @ (if decimalPart \<noteq> [] then ''.'' @ decimalPart else []))"

text \<open>
  The decimal expansion of \<open>N / 10 ^ s\<close> as the specification words it: the digits of
  \<open>N\<close> without the sign, left-padded with zeros to at least \<open>s + 1\<close> digits, split into
  the whole part and the last \<open>s\<close> digits with the trailing zeros trimmed, the sign in
  front and the separator left out when no fractional digit remains.
\<close>

definition decimal_expansion :: "int \<Rightarrow> nat \<Rightarrow> string" where
  "decimal_expansion N s =
     (let digits = padStart (nat_digits \<bar>N\<bar>) (int s + 1) (CHR ''0'');
          whole = take (length digits - s) digits;
          fraction = trimEnd (drop (length digits - s) digits) (CHR ''0'')
      in (if N < 0 then ''-'' else []) @ (if whole = [] then ''0'' else whole)
         @ (if fraction = [] then [] else ''.'' @ fraction))"

definition scale_field :: "int \<Rightarrow> field" where
  \<comment> \<open>a decimal field of the given scale\<close>
  "scale_field sc = Field OtherType None (Some sc) None [] []"

section \<open>Number to string\<close>

text \<open>
  \<open>String(x)\<close> for a number \<open>x\<close> (ECMAScript's Number::toString in radix 10): the
  shortest decimal digit string \<open>s\<close> of \<open>k\<close> digits with \<open>s * 10 ^ (n - k)\<close> rounding to
  \<open>x\<close>, laid out as an integer, a decimal fraction or in exponent notation.
\<close>

function pow10 :: "int \<Rightarrow> rat" where
  "pow10 e = (if e < 0 then 1 / pow10 (- e)
              else if e = 0 then 1
              else if even e then pow10 (e div 2) * pow10 (e div 2)
              else 10 * pow10 (e - 1))"
  by pat_completeness auto
termination
  by (relation "measure (\<lambda>e. if e < 0 then nat (2 - 2 * e) else nat (2 * e))") auto

declare pow10.simps [simp del]

definition decimal_exponent :: "rat \<Rightarrow> int" where
  \<comment> \<open>for \<open>0 < a\<close>: the \<open>n\<close> with \<open>10 ^ (n - 1) \<le> a < 10 ^ n\<close>\<close>
  "decimal_exponent a =
     (let (p, q) = quotient_of a;
          d = int (length (nat_digits p)) - int (length (nat_digits q))
      in if a < pow10 d then d else d + 1)"

definition digits_candidate :: "rat \<Rightarrow> int \<Rightarrow> int \<Rightarrow> (int \<times> int \<times> int) option" where
  \<comment> \<open>the \<open>(n, k, s)\<close> of \<open>k\<close> digits nearest to \<open>a\<close> that rounds to \<open>a\<close>, if there is one\<close>
  "digits_candidate a n0 k =
     (let u = pow10 (n0 - k);
          lo = \<lfloor>a / u\<rfloor>; hi = lo + 1;
          lo_ok = (round_double (of_int lo * u) = Fin a);
          hi_ok = (round_double (of_int hi * u) = Fin a);
          dl = a - of_int lo * u; dh = of_int hi * u - a;
          take_hi = (hi_ok \<and> (\<not> lo_ok \<or> dh < dl \<or> (dh = dl \<and> even hi)))
      in if take_hi then
           (if of_int hi = pow10 k then Some (n0 + 1, k, \<lfloor>pow10 (k - 1)\<rfloor>) else Some (n0, k, hi))
         else if lo_ok then Some (n0, k, lo)
         else None)"

function search_digits :: "rat \<Rightarrow> int \<Rightarrow> int \<Rightarrow> int \<times> int \<times> int" where
  \<comment> \<open>the first digit count from \<open>k\<close> on that has a candidate; 17 digits tell any two
     doubles apart\<close>
  "search_digits a n0 k =
     (if 17 \<le> k then (n0, 17, round_half_even (a / pow10 (n0 - 17)))
      else case digits_candidate a n0 k of
             Some c \<Rightarrow> c
           | None \<Rightarrow> search_digits a n0 (k + 1))"
  by pat_completeness auto
termination
  by (relation "measure (\<lambda>(a, n0, k). nat (17 - k))") auto

declare search_digits.simps [simp del]

definition shortest_digits :: "rat \<Rightarrow> int \<times> int \<times> int" where
  "shortest_digits a = search_digits a (decimal_exponent a) 1"

definition exponent_suffix :: "int \<Rightarrow> string" where
  "exponent_suffix e = CHR ''e'' # (if e < 0 then CHR ''-'' else CHR ''+'') # nat_digits \<bar>e\<bar>"

definition layout_digits :: "int \<Rightarrow> int \<Rightarrow> string \<Rightarrow> string" where
  "layout_digits n k ds =
     (if k \<le> n \<and> n \<le> 21 then ds @ replicate (nat (n - k)) (CHR ''0'')
      else if 0 < n \<and> n \<le> 21 then take (nat n) ds @ ''.'' @ drop (nat n) ds
      else if - 6 < n \<and> n \<le> 0 then ''0.'' @ replicate (nat (- n)) (CHR ''0'') @ ds
      else if k = 1 then ds @ exponent_suffix (n - 1)
      else take 1 ds @ ''.'' @ drop 1 ds @ exponent_suffix (n - 1))"

definition positive_toString :: "rat \<Rightarrow> string" where
  "positive_toString a = (case shortest_digits a of (n, k, s) \<Rightarrow> layout_digits n k (nat_digits s))"

fun Number_toString :: "number \<Rightarrow> string" where
  "Number_toString NaN = ''NaN''"
| "Number_toString PosInf = ''Infinity''"
| "Number_toString NegInf = ''-Infinity''"
| "Number_toString (Fin r) =
     (if r = 0 then ''0''
      else if r < 0 then CHR ''-'' # positive_toString (- r)
      else positive_toString r)"

section \<open>JSON.parse\<close>

text \<open>
  ECMAScript's \<open>JSON.parse\<close> on a string: a lexer (a state machine over the characters)
  and a parser (a stack machine over the tokens) for the JSON grammar. A text outside the
  grammar is a SyntaxError. A \<open>\uXXXX\<close> escape is stored in UTF-8.
\<close>

datatype json =
  JNull | JBool bool | JNumber number | JString string
  | JArray "json list" | JObject "(string \<times> json) list"

datatype token =
  LBrace | RBrace | LBracket | RBracket | Colon | Comma
  | TkString string | TkNumber number | TkTrue | TkFalse | TkNull

definition char_code :: "char \<Rightarrow> int" where
  "char_code c = int (of_char c)"

definition is_digit :: "char \<Rightarrow> bool" where
  "is_digit c = (48 \<le> char_code c \<and> char_code c \<le> 57)"

definition digit_value :: "char \<Rightarrow> int" where
  "digit_value c = char_code c - 48"

definition hex_value :: "char \<Rightarrow> int option" where
  "hex_value c =
     (if is_digit c then Some (digit_value c)
      else if 97 \<le> char_code c \<and> char_code c \<le> 102 then Some (char_code c - 87)
      else if 65 \<le> char_code c \<and> char_code c \<le> 70 then Some (char_code c - 55)
      else None)"

definition byte_char :: "int \<Rightarrow> char" where
  "byte_char n = char_of (nat n)"

definition utf8 :: "int \<Rightarrow> string" where
  "utf8 cp =
     (if cp < 128 then [byte_char cp]
      else if cp < 2048 then [byte_char (192 + cp div 64), byte_char (128 + cp mod 64)]
      else [byte_char (224 + cp div 4096), byte_char (128 + (cp div 64) mod 64),
            byte_char (128 + cp mod 64)])"

fun digits_value :: "int \<Rightarrow> string \<Rightarrow> int" where
  "digits_value acc [] = acc"
| "digits_value acc (c # cs) = digits_value (10 * acc + digit_value c) cs"

definition all_digits :: "string \<Rightarrow> bool" where
  "all_digits s = (s \<noteq> [] \<and> list_all is_digit s)"

definition json_exponent :: "string \<Rightarrow> int option" where
  \<comment> \<open>what follows the mantissa: nothing, or \<open>e\<close> or \<open>E\<close>, an optional sign and digits\<close>
  "json_exponent s =
     (case s of
        [] \<Rightarrow> Some 0
      | c # r \<Rightarrow>
          if c = CHR ''e'' \<or> c = CHR ''E'' then
            (case r of
               [] \<Rightarrow> None
             | d # ds \<Rightarrow>
                 if d = CHR ''-'' then (if all_digits ds then Some (- digits_value 0 ds) else None)
                 else if d = CHR ''+'' then (if all_digits ds then Some (digits_value 0 ds) else None)
                 else if all_digits r then Some (digits_value 0 r) else None)
          else None)"

definition json_number :: "string \<Rightarrow> rat option" where
  \<comment> \<open>the exact value of a JSON number literal\<close>
  "json_number s =
     (let neg = (s \<noteq> [] \<and> hd s = CHR ''-'');
          body = (if neg then tl s else s);
          ip = takeWhile is_digit body;
          r1 = dropWhile is_digit body;
          has_frac = (r1 \<noteq> [] \<and> hd r1 = CHR ''.'');
          fp = (if has_frac then takeWhile is_digit (tl r1) else []);
          r2 = (if has_frac then dropWhile is_digit (tl r1) else r1)
      in if ip = [] \<or> (hd ip = CHR ''0'' \<and> length ip > 1) \<or> (has_frac \<and> fp = []) then None
         else case json_exponent r2 of
                None \<Rightarrow> None
              | Some e \<Rightarrow>
                  Some ((if neg then - 1 else 1) * of_int (digits_value 0 (ip @ fp))
                        * pow10 (e - int (length fp))))"

definition json_word :: "string \<Rightarrow> token option" where
  "json_word s =
     (if s = ''true'' then Some TkTrue
      else if s = ''false'' then Some TkFalse
      else if s = ''null'' then Some TkNull
      else case json_number s of None \<Rightarrow> None | Some r \<Rightarrow> Some (TkNumber (round_double r)))"

definition punctuation :: "char \<Rightarrow> token option" where
  "punctuation c =
     (if c = CHR ''{'' then Some LBrace else if c = CHR ''}'' then Some RBrace
      else if c = CHR ''['' then Some LBracket else if c = CHR '']'' then Some RBracket
      else if c = CHR '':'' then Some Colon else if c = CHR '','' then Some Comma
      else None)"

definition is_whitespace :: "char \<Rightarrow> bool" where
  "is_whitespace c = (c = CHR '' '' \<or> c = CHR 0x09 \<or> c = CHR 0x0A \<or> c = CHR 0x0D)"

definition simple_escape :: "char \<Rightarrow> char option" where
  "simple_escape c =
     (if c = CHR 0x22 \<or> c = CHR 0x5C \<or> c = CHR ''/'' then Some c
      else if c = CHR ''b'' then Some (CHR 0x08) else if c = CHR ''f'' then Some (CHR 0x0C)
      else if c = CHR ''n'' then Some (CHR 0x0A) else if c = CHR ''r'' then Some (CHR 0x0D)
      else if c = CHR ''t'' then Some (CHR 0x09) else None)"

datatype lex_state =
  Idle | InWord string | InString string | InEscape string | InUnicode string "int list"

fun lex :: "lex_state \<Rightarrow> string \<Rightarrow> token list option" where
  "lex Idle [] = Some []"
| "lex (InWord w) [] = (case json_word (rev w) of None \<Rightarrow> None | Some t \<Rightarrow> Some [t])"
| "lex _ [] = None"
| "lex Idle (c # cs) =
     (if is_whitespace c then lex Idle cs
      else if c = CHR 0x22 then lex (InString []) cs
      else case punctuation c of
             Some t \<Rightarrow> (case lex Idle cs of None \<Rightarrow> None | Some ts \<Rightarrow> Some (t # ts))
           | None \<Rightarrow> lex (InWord [c]) cs)"
| "lex (InWord w) (c # cs) =
     (if is_whitespace c \<or> punctuation c \<noteq> None \<or> c = CHR 0x22 then
        (case json_word (rev w) of
           None \<Rightarrow> None
         | Some t \<Rightarrow>
             (case (if is_whitespace c then lex Idle cs
                    else if c = CHR 0x22 then lex (InString []) cs
                    else case punctuation c of
                           Some p \<Rightarrow>
                             (case lex Idle cs of None \<Rightarrow> None | Some ts \<Rightarrow> Some (p # ts))
                         | None \<Rightarrow> None) of
                None \<Rightarrow> None
              | Some ts \<Rightarrow> Some (t # ts)))
      else lex (InWord (c # w)) cs)"
| "lex (InString s) (c # cs) =
     (if c = CHR 0x22 then
        (case lex Idle cs of None \<Rightarrow> None | Some ts \<Rightarrow> Some (TkString (rev s) # ts))
      else if c = CHR 0x5C then lex (InEscape s) cs
      else if char_code c < 32 then None
      else lex (InString (c # s)) cs)"
| "lex (InEscape s) (c # cs) =
     (if c = CHR ''u'' then lex (InUnicode s []) cs
      else case simple_escape c of None \<Rightarrow> None | Some e \<Rightarrow> lex (InString (e # s)) cs)"
| "lex (InUnicode s hs) (c # cs) =
     (case hex_value c of
        None \<Rightarrow> None
      | Some h \<Rightarrow>
          (case hs of
             [h1, h2, h3] \<Rightarrow>
               lex (InString (rev (utf8 (((h3 * 16 + h2) * 16 + h1) * 16 + h)) @ s)) cs
           | _ \<Rightarrow> lex (InUnicode s (h # hs)) cs))"

datatype frame = ArrayFrame "json list" | ObjectFrame "(string \<times> json) list" string

datatype parse_state =
  WantValue | WantValueOrEnd | WantKey | WantKeyOrEnd "(string \<times> json) list"
  | WantColon "(string \<times> json) list" string | AfterValue | Finished json

fun complete_value :: "json \<Rightarrow> frame list \<Rightarrow> parse_state \<times> frame list" where
  "complete_value v [] = (Finished v, [])"
| "complete_value v (ArrayFrame els # st) = (AfterValue, ArrayFrame (v # els) # st)"
| "complete_value v (ObjectFrame ms k # st) = (AfterValue, ObjectFrame ((k, v) # ms) k # st)"

fun scalar_token :: "token \<Rightarrow> json option" where
  "scalar_token (TkString s) = Some (JString s)"
| "scalar_token (TkNumber n) = Some (JNumber n)"
| "scalar_token TkTrue = Some (JBool True)"
| "scalar_token TkFalse = Some (JBool False)"
| "scalar_token TkNull = Some JNull"
| "scalar_token _ = None"

fun parse_step :: "parse_state \<Rightarrow> frame list \<Rightarrow> token \<Rightarrow> (parse_state \<times> frame list) option" where
  "parse_step (Finished v) st t = None"
| "parse_step AfterValue (ArrayFrame els # st) t =
     (if t = Comma then Some (WantValue, ArrayFrame els # st)
      else if t = RBracket then Some (complete_value (JArray (rev els)) st)
      else None)"
| "parse_step AfterValue (ObjectFrame ms k # st) t =
     (if t = Comma then Some (WantKey, ObjectFrame ms k # st)
      else if t = RBrace then Some (complete_value (JObject (rev ms)) st)
      else None)"
| "parse_step AfterValue [] t = None"
| "parse_step WantKey (ObjectFrame ms k # st) t =
     (case t of TkString k' \<Rightarrow> Some (WantColon ms k', st) | _ \<Rightarrow> None)"
| "parse_step WantKey _ t = None"
| "parse_step (WantKeyOrEnd ms) st t =
     (case t of
        TkString k \<Rightarrow> Some (WantColon ms k, st)
      | RBrace \<Rightarrow> Some (complete_value (JObject (rev ms)) st)
      | _ \<Rightarrow> None)"
| "parse_step (WantColon ms k) st t =
     (if t = Colon then Some (WantValue, ObjectFrame ms k # st) else None)"
| "parse_step WantValueOrEnd (ArrayFrame els # st) RBracket =
     Some (complete_value (JArray (rev els)) st)"
| "parse_step s st t =
     (case scalar_token t of
        Some v \<Rightarrow> Some (complete_value v st)
      | None \<Rightarrow>
          if t = LBracket then Some (WantValueOrEnd, ArrayFrame [] # st)
          else if t = LBrace then Some (WantKeyOrEnd [], st)
          else None)"

fun parse_tokens :: "parse_state \<Rightarrow> frame list \<Rightarrow> token list \<Rightarrow> json option" where
  "parse_tokens (Finished v) st [] = Some v"
| "parse_tokens s st [] = None"
| "parse_tokens s st (t # ts) =
     (case parse_step s st t of None \<Rightarrow> None | Some (s', st') \<Rightarrow> parse_tokens s' st' ts)"

definition JSON_parse :: "string \<Rightarrow> js_error + json" where
  "JSON_parse text =
     (case lex Idle text of
        None \<Rightarrow> Inl SyntaxError
      | Some ts \<Rightarrow> (case parse_tokens WantValue [] ts of
                     None \<Rightarrow> Inl SyntaxError
                   | Some v \<Rightarrow> Inr v))"

definition json_get :: "(string \<times> json) list \<Rightarrow> string \<Rightarrow> json option" where
  \<comment> \<open>a property of a parsed object; of a repeated key the last member counts\<close>
  "json_get ms k = map_of (rev ms) k"

section \<open>Calendar arithmetic and moment.js\<close>

text \<open>
  The proleptic Gregorian calendar over day numbers (day 0 is 1970-01-01) and the part
  of moment.js the formatters use. A moment is its time value in milliseconds, read in the
  zone it displays in, or \<open>None\<close> for an invalid date; a time value beyond the range of a
  JavaScript \<open>Date\<close> (8.64e15 ms either side of the epoch) is invalid and formats as
  \<open>Invalid date\<close>. The host's local zone is taken to have a fixed offset, so that local
  arithmetic is calendar arithmetic.
\<close>

definition civil_from_days :: "int \<Rightarrow> int \<times> int \<times> int" where
  \<comment> \<open>year, month (1 to 12) and day of the month of a day number\<close>
  "civil_from_days z =
     (let z' = z + 719468;
          era = z' div 146097;
          doe = z' mod 146097;
          yoe = (doe - doe div 1460 + doe div 36524 - doe div 146096) div 365;
          doy = doe - (365 * yoe + yoe div 4 - yoe div 100);
          mp = (5 * doy + 2) div 153;
          d = doy - (153 * mp + 2) div 5 + 1;
          m = (if mp < 10 then mp + 3 else mp - 9);
          y = yoe + era * 400
      in (if m \<le> 2 then y + 1 else y, m, d))"

definition days_from_civil :: "int \<Rightarrow> int \<Rightarrow> int \<Rightarrow> int" where
  "days_from_civil y m d =
     (let y' = (if m \<le> 2 then y - 1 else y);
          era = y' div 400;
          yoe = y' mod 400;
          doy = (153 * (if 2 < m then m - 3 else m + 9) + 2) div 5 + d - 1;
          doe = yoe * 365 + yoe div 4 - yoe div 100 + doy
      in era * 146097 + doe - 719468)"

definition ms_per_day :: int where
  "ms_per_day = 86400000"

definition max_time_value :: int where
  "max_time_value = 8640000000000000"

type_synonym moment = "int option"

definition time_clip :: "int \<Rightarrow> moment" where
  "time_clip t = (if \<bar>t\<bar> \<le> max_time_value then Some t else None)"

definition moment_epoch :: moment where
  \<comment> \<open>\<open>moment("19700101", "YYYYMMDD")\<close>\<close>
  "moment_epoch = Some 0"

datatype time_unit = Milliseconds | Seconds | Minutes | Hours | Days | Weeks | Months | Quarters | Years

definition add_months :: "int \<Rightarrow> int \<Rightarrow> moment" where
  \<comment> \<open>the same day of the month and time of day, \<open>n\<close> months on; the day is clamped to the
     length of the target month\<close>
  "add_months t n =
     (case civil_from_days (t div ms_per_day) of
        (y, m, d) \<Rightarrow>
          let k = (m - 1) + n;
              y' = y + k div 12;
              m' = k mod 12 + 1;
              len = days_from_civil (if m' = 12 then y' + 1 else y') (if m' = 12 then 1 else m' + 1) 1
                    - days_from_civil y' m' 1
          in time_clip (days_from_civil y' m' (min d len) * ms_per_day + t mod ms_per_day))"

fun moment_add :: "moment \<Rightarrow> int \<Rightarrow> time_unit \<Rightarrow> moment" where
  "moment_add None n u = None"
| "moment_add (Some t) n Milliseconds = time_clip (t + n)"
| "moment_add (Some t) n Seconds = time_clip (t + n * 1000)"
| "moment_add (Some t) n Minutes = time_clip (t + n * 60000)"
| "moment_add (Some t) n Hours = time_clip (t + n * 3600000)"
| "moment_add (Some t) n Days = time_clip (t + n * ms_per_day)"
| "moment_add (Some t) n Weeks = time_clip (t + n * 7 * ms_per_day)"
| "moment_add (Some t) n Months = add_months t n"
| "moment_add (Some t) n Quarters = add_months t (n * 3)"
| "moment_add (Some t) n Years = add_months t (n * 12)"

definition weekday :: "int \<Rightarrow> int" where
  \<comment> \<open>the day of the week of a time value, Sunday is 0; 1970-01-01 was a Thursday\<close>
  "weekday t = (t div ms_per_day + 4) mod 7"

fun moment_day :: "moment \<Rightarrow> int \<Rightarrow> moment" where
  \<comment> \<open>\<open>m.day(k)\<close>: the day \<open>k\<close> of the week of \<open>m\<close>, other weeks for \<open>k\<close> outside 0 to 6\<close>
  "moment_day None k = None"
| "moment_day (Some t) k = moment_add (Some t) (k - weekday t) Days"

fun moment_endOf_quarter :: "moment \<Rightarrow> moment" where
  "moment_endOf_quarter None = None"
| "moment_endOf_quarter (Some t) =
     (case civil_from_days (t div ms_per_day) of
        (y, m, d) \<Rightarrow>
          let q = (m - 1) div 3;
              y' = (if q = 3 then y + 1 else y);
              m' = (if q = 3 then 1 else 3 * q + 4)
          in time_clip (days_from_civil y' m' 1 * ms_per_day - 1))"

definition zeroFill :: "int \<Rightarrow> int \<Rightarrow> string" where
  \<comment> \<open>moment's \<open>zeroFill\<close> without a forced sign\<close>
  "zeroFill n len = (if n < 0 then ''-'' else []) @ padStart (nat_digits \<bar>n\<bar>) len (CHR ''0'')"

datatype format_token =
  YYYY | MM | DD | HH | Mi | SS | SSS | Q | Lit string

definition render_token :: "int \<Rightarrow> format_token \<Rightarrow> string" where
  "render_token t tok =
     (case civil_from_days (t div ms_per_day) of
        (y, m, d) \<Rightarrow>
          let ms = t mod ms_per_day in
          (case tok of
             YYYY \<Rightarrow> zeroFill y 4
           | MM \<Rightarrow> zeroFill m 2
           | DD \<Rightarrow> zeroFill d 2
           | HH \<Rightarrow> zeroFill (ms div 3600000) 2
           | Mi \<Rightarrow> zeroFill (ms div 60000 mod 60) 2
           | SS \<Rightarrow> zeroFill (ms div 1000 mod 60) 2
           | SSS \<Rightarrow> zeroFill (ms mod 1000) 3
           | Q \<Rightarrow> nat_digits ((m - 1) div 3 + 1)
           | Lit s \<Rightarrow> s))"

definition moment_format :: "moment \<Rightarrow> format_token list \<Rightarrow> string" where
  "moment_format m toks =
     (case m of None \<Rightarrow> ''Invalid date'' | Some t \<Rightarrow> concat (map (render_token t) toks))"

text \<open>The format strings of the source.\<close>

definition fmt_date :: "format_token list" where
  \<comment> \<open>\<open>YYYY-MM-DD\<close>\<close>
  "fmt_date = [YYYY, Lit ''-'', MM, Lit ''-'', DD]"

definition fmt_minutes :: "format_token list" where
  \<comment> \<open>\<open>YYYY-MM-DD HH:mm\<close>\<close>
  "fmt_minutes = fmt_date @ [Lit '' '', HH, Lit '':'', Mi]"

definition fmt_seconds :: "format_token list" where
  \<comment> \<open>\<open>YYYY-MM-DD HH:mm:ss\<close>\<close>
  "fmt_seconds = fmt_minutes @ [Lit '':'', SS]"

definition fmt_millis :: "format_token list" where
  \<comment> \<open>\<open>YYYY-MM-DD HH:mm:ss.SSS\<close>\<close>
  "fmt_millis = fmt_seconds @ [Lit ''.'', SSS]"

section \<open>Cell values\<close>

text \<open>
  Modelled from the spec: the type \<open>DataType\<close> of the repository's \<open>arrowTypeUtils\<close>,
  which is not among the sources: the cell values of the specification's data model
  (null or absent, number, big integer, date, string, nested row, list, raw buffer of an
  unscaled decimal), here \<open>null\<close>, \<open>undefined\<close>, a boolean, a number, a bigint, a string,
  a valid \<open>Date\<close> (its time value in milliseconds), a \<open>Uint32Array\<close>, an arrow
  \<open>StructRow\<close> (its fields in order, with distinct names) and an arrow \<open>Vector\<close>.
\<close>

datatype DataType =
  Null | Undefined | Bool bool | Num number | BigInt int | Str string | Date int
  | Uint32Array "32 word list"
  | StructRow "(string \<times> DataType) list"
  | Vector "DataType list"

text \<open>
  Modelled from the spec: \<open>isNullOrUndefined\<close> of the repository's \<open>util/utils\<close>, which
  is not among the sources: the test "null or absent" of the dispatcher's first rule. Its
  negation \<open>notNullOrUndefined\<close>, which the replacer of the \<open>Struct\<close> branch of
  \<open>formatObject\<close> tests, is written \<open>\<not> isNullOrUndefined\<close>.
\<close>

fun isNullOrUndefined :: "DataType \<Rightarrow> bool" where
  "isNullOrUndefined Null = True"
| "isNullOrUndefined Undefined = True"
| "isNullOrUndefined _ = False"

text \<open>
  What the libraries do that the formatters pass through unchanged and no property below
  depends on, as parameters: \<open>Date.prototype.toString\<close> (it depends on the host's zone and
  locale), the \<open>toString\<close> of arrow's \<open>StructRow\<close> and \<open>Vector\<close>, moment-timezone's
  rendering of a moment in a named zone or at a UTC offset with the format
  \<open>YYYY-MM-DD HH:mm:ssZ\<close>, moment's \<open>humanize\<close> of a duration in seconds, and numbro's
  format \<open>0,0.0000\<close> of a finite number.
\<close>

record libs =
  date_toString :: "int \<Rightarrow> string"
  arrow_toString :: "DataType \<Rightarrow> string"
  format_in_zone :: "string \<Rightarrow> moment \<Rightarrow> string"
  humanize :: "number \<Rightarrow> string"
  numbro_format :: "rat \<Rightarrow> string"

fun join :: "string \<Rightarrow> string list \<Rightarrow> string" where
  "join sep [] = []"
| "join sep [x] = x"
| "join sep (x # y # ys) = x @ sep @ join sep (y # ys)"

fun JS_String :: "libs \<Rightarrow> DataType \<Rightarrow> string" where
  \<comment> \<open>\<open>String(x)\<close>\<close>
  "JS_String L Null = ''null''"
| "JS_String L Undefined = ''undefined''"
| "JS_String L (Bool b) = (if b then ''true'' else ''false'')"
| "JS_String L (Num n) = Number_toString n"
| "JS_String L (BigInt b) = bigint_toString b"
| "JS_String L (Str s) = s"
| "JS_String L (Date t) = date_toString L t"
| "JS_String L (Uint32Array ws) = join '','' (map (\<lambda>w. nat_digits (uint w)) ws)"
| "JS_String L (StructRow kvs) = arrow_toString L (StructRow kvs)"
| "JS_String L (Vector xs) = arrow_toString L (Vector xs)"

section \<open>JSON.stringify\<close>

definition hex_digit :: "int \<Rightarrow> char" where
  "hex_digit d = ''0123456789abcdef'' ! nat d"

definition quote_char :: "char \<Rightarrow> string" where
  "quote_char c =
     (if c = CHR 0x22 then [CHR 0x5C, CHR 0x22]
      else if c = CHR 0x5C then [CHR 0x5C, CHR 0x5C]
      else if c = CHR 0x08 then [CHR 0x5C, CHR ''b'']
      else if c = CHR 0x0C then [CHR 0x5C, CHR ''f'']
      else if c = CHR 0x0A then [CHR 0x5C, CHR ''n'']
      else if c = CHR 0x0D then [CHR 0x5C, CHR ''r'']
      else if c = CHR 0x09 then [CHR 0x5C, CHR ''t'']
      else if char_code c < 32 then
        [CHR 0x5C, CHR ''u'', CHR ''0'', CHR ''0'', hex_digit (char_code c div 16),
         hex_digit (char_code c mod 16)]
      else [c])"

definition quote :: "string \<Rightarrow> string" where
  \<comment> \<open>QuoteJSONString\<close>
  "quote s = [CHR 0x22] @ concat (map quote_char s) @ [CHR 0x22]"

definition toISOString :: "int \<Rightarrow> string" where
  \<comment> \<open>\<open>Date.prototype.toISOString\<close>, which \<open>Date.prototype.toJSON\<close> returns\<close>
  "toISOString t =
     (case civil_from_days (t div ms_per_day) of
        (y, m, d) \<Rightarrow>
          (if 0 \<le> y \<and> y \<le> 9999 then zeroFill y 4
           else (if y < 0 then ''-'' else ''+'') @ padStart (nat_digits \<bar>y\<bar>) 6 (CHR ''0''))
          @ moment_format (Some t)
              [Lit ''-'', MM, Lit ''-'', DD, Lit ''T'', HH, Lit '':'', Mi, Lit '':'', SS,
               Lit ''.'', SSS, Lit ''Z''])"

definition number_json :: "number \<Rightarrow> string" where
  "number_json n = (if Number_isFinite n then Number_toString n else ''null'')"

fun index_members :: "int \<Rightarrow> 32 word list \<Rightarrow> string list" where
  "index_members i [] = []"
| "index_members i (w # ws) =
     (quote (nat_digits i) @ '':'' @ nat_digits (uint w)) # index_members (i + 1) ws"

text \<open>
  \<open>JSON.stringify(object, replacer)\<close> with the two replacers of the source:
  \<open>drop_nullish\<close> tells the replacer of the \<open>Struct\<close> branch, which answers \<open>undefined\<close>
  for \<open>null\<close> and \<open>undefined\<close>, from the other one; both turn a bigint into a number. The
  result \<open>None\<close> is \<open>undefined\<close>. A \<open>StructRow\<close>, a \<open>Vector\<close> and a \<open>Date\<close> are serialized
  through their \<open>toJSON\<close>: an object, an array and the ISO string.
\<close>

fun serialize :: "bool \<Rightarrow> DataType \<Rightarrow> string option"
  and serialize_members :: "bool \<Rightarrow> (string \<times> DataType) list \<Rightarrow> string list"
  and serialize_elements :: "bool \<Rightarrow> DataType list \<Rightarrow> string list" where
  "serialize drop_nullish Null = (if drop_nullish then None else Some ''null'')"
| "serialize drop_nullish Undefined = None"
| "serialize drop_nullish (Bool b) = Some (if b then ''true'' else ''false'')"
| "serialize drop_nullish (Num n) = Some (number_json n)"
| "serialize drop_nullish (BigInt b) = Some (number_json (Number_of_bigint b))"
| "serialize drop_nullish (Str s) = Some (quote s)"
| "serialize drop_nullish (Date t) = Some (quote (toISOString t))"
| "serialize drop_nullish (Uint32Array ws) = Some (''{'' @ join '','' (index_members 0 ws) @ ''}'')"
| "serialize drop_nullish (StructRow kvs) =
     Some (''{'' @ join '','' (serialize_members drop_nullish kvs) @ ''}'')"
| "serialize drop_nullish (Vector xs) =
     Some (''['' @ join '','' (serialize_elements drop_nullish xs) @ '']'')"
| "serialize_members drop_nullish [] = []"
| "serialize_members drop_nullish (kv # kvs) =
     (case serialize drop_nullish (snd kv) of
        None \<Rightarrow> serialize_members drop_nullish kvs
      | Some s \<Rightarrow> (quote (fst kv) @ '':'' @ s) # serialize_members drop_nullish kvs)"
| "serialize_elements drop_nullish [] = []"
| "serialize_elements drop_nullish (x # xs) =
     (case serialize drop_nullish x of None \<Rightarrow> ''null'' | Some s \<Rightarrow> s)
     # serialize_elements drop_nullish xs"

definition formatObject :: "DataType \<Rightarrow> field option \<Rightarrow> string option" where
  "formatObject object fld =
     (if (case fld of None \<Rightarrow> False | Some f \<Rightarrow> type_kind f = Struct)
      then serialize True object
      else serialize False object)"

section \<open>Period formatting\<close>

text \<open>
  A formatter returns the warnings it logged, in order, and then either the error it threw
  or the string it returned.

  Modelled from the spec: \<open>logWarning\<close> of the repository's \<open>util/log\<close>, which is not
  among the sources: the best-effort diagnostic of a fallback path, here the message
  appended to the log.
\<close>

type_synonym logged = "string list \<times> (js_error + string)"

definition returns :: "string \<Rightarrow> logged" where
  "returns s = ([], Inr s)"

definition throws :: "js_error \<Rightarrow> logged" where
  "throws e = ([], Inl e)"

definition logWarning_return :: "string \<Rightarrow> string \<Rightarrow> logged" where
  \<comment> \<open>\<open>logWarning(msg); return s\<close>\<close>
  "logWarning_return msg s = ([msg], Inr s)"

definition WEEKDAY_SHORT :: "string list" where
  "WEEKDAY_SHORT = [''SUN'', ''MON'', ''TUE'', ''WED'', ''THU'', ''FRI'', ''SAT'']"

fun indexOf :: "string list \<Rightarrow> string \<Rightarrow> int" where
  "indexOf [] x = - 1"
| "indexOf (y # ys) x = (if y = x then 0 else let i = indexOf ys x in if i < 0 then - 1 else i + 1)"

definition formatMs :: "int \<Rightarrow> string" where
  "formatMs duration = moment_format (moment_add moment_epoch duration Milliseconds) fmt_millis"

definition formatSec :: "int \<Rightarrow> string" where
  "formatSec duration = moment_format (moment_add moment_epoch duration Seconds) fmt_seconds"

definition formatMin :: "int \<Rightarrow> string" where
  "formatMin duration = moment_format (moment_add moment_epoch duration Minutes) fmt_minutes"

definition formatHours :: "int \<Rightarrow> string" where
  "formatHours duration = moment_format (moment_add moment_epoch duration Hours) fmt_minutes"

definition formatDay :: "int \<Rightarrow> string" where
  "formatDay duration = moment_format (moment_add moment_epoch duration Days) fmt_date"

definition formatMonth :: "int \<Rightarrow> string" where
  "formatMonth duration =
     moment_format (moment_add moment_epoch duration Months) [YYYY, Lit ''-'', MM]"

definition formatYear :: "int \<Rightarrow> string" where
  "formatYear duration = moment_format (moment_add moment_epoch duration Years) [YYYY]"

definition formatWeeks :: "int \<Rightarrow> string option \<Rightarrow> js_error + string" where
  "formatWeeks duration freqParam =
     (case freqParam of
        None \<Rightarrow> Inl (Error ''Frequency \"W\" requires parameter'')
      | Some p \<Rightarrow>
          if p = [] then Inl (Error ''Frequency \"W\" requires parameter'')
          else let dayIndex = indexOf WEEKDAY_SHORT p
               in if dayIndex < 0 then
                    Inl (Error (''Invalid value: '' @ p @ ''. Supported values: ''
                                @ ''[\"SUN\",\"MON\",\"TUE\",\"WED\",\"THU\",\"FRI\",\"SAT\"]''))
                  else
                    let startDate = moment_format
                          (moment_day (moment_add moment_epoch duration Weeks) (dayIndex - 6))
                          fmt_date;
                        endDate = moment_format
                          (moment_day (moment_add moment_epoch duration Weeks) dayIndex)
                          fmt_date
                    in Inr (startDate @ ''/'' @ endDate))"

definition formatQuarter :: "int \<Rightarrow> string" where
  "formatQuarter duration =
     moment_format (moment_endOf_quarter (moment_add moment_epoch duration Quarters))
       [YYYY, Lit ''Q'', Q]"

definition PERIOD_TYPE_FORMATTERS ::
  "string \<Rightarrow> (int \<Rightarrow> string option \<Rightarrow> js_error + string) option" where
  \<comment> \<open>the table, looked up by its own keys: a name that is none of them gives
     \<open>undefined\<close> (what the object inherits from \<open>Object.prototype\<close>, as \<open>constructor\<close>,
     is left out)\<close>
  "PERIOD_TYPE_FORMATTERS name =
     (if name = ''L'' \<or> name = ''ms'' then Some (\<lambda>d p. Inr (formatMs d))
      else if name = ''S'' \<or> name = ''s'' then Some (\<lambda>d p. Inr (formatSec d))
      else if name = ''T'' \<or> name = ''min'' then Some (\<lambda>d p. Inr (formatMin d))
      else if name = ''H'' \<or> name = ''h'' then Some (\<lambda>d p. Inr (formatHours d))
      else if name = ''D'' then Some (\<lambda>d p. Inr (formatDay d))
      else if name = ''M'' then Some (\<lambda>d p. Inr (formatMonth d))
      else if name = ''W'' then Some formatWeeks
      else if name = ''Q'' then Some (\<lambda>d p. Inr (formatQuarter d))
      else if name = ''Y'' \<or> name = ''A'' then Some (\<lambda>d p. Inr (formatYear d))
      else None)"

fun split_on :: "char \<Rightarrow> string \<Rightarrow> string \<Rightarrow> string list" where
  \<comment> \<open>the pieces of a string between the occurrences of a separator; the first argument
     after the separator is the piece being read, reversed\<close>
  "split_on sep acc [] = [rev acc]"
| "split_on sep acc (c # cs) =
     (if c = sep then rev acc # split_on sep [] cs else split_on sep (c # acc) cs)"

definition split_limit :: "string \<Rightarrow> char \<Rightarrow> nat \<Rightarrow> string list" where
  \<comment> \<open>\<open>s.split(sep, limit)\<close> for a one-character separator\<close>
  "split_limit s sep limit = take limit (split_on sep [] s)"

fun timestamp_toString :: "timestamp \<Rightarrow> string" where
  \<comment> \<open>\<open>String(x)\<close> for a number or a bigint\<close>
  "timestamp_toString (TNumber n) = Number_toString n"
| "timestamp_toString (TBigInt b) = bigint_toString b"

fun integer_value :: "number \<Rightarrow> int" where
  \<comment> \<open>the value of a number that is an integer\<close>
  "integer_value (Fin r) = \<lfloor>r\<rfloor>"
| "integer_value _ = 0"

definition formatPeriodFromFreq :: "timestamp \<Rightarrow> string \<Rightarrow> logged" where
  "formatPeriodFromFreq duration freq =
     (let parts = split_limit freq (CHR ''-'') 2;
          freqName = hd parts;
          freqParam = (if 1 < length parts then Some (parts ! 1) else None)
      in case PERIOD_TYPE_FORMATTERS freqName of
           None \<Rightarrow>
             logWarning_return (''Unsupported period frequency: '' @ freq)
               (timestamp_toString duration)
         | Some momentConverter \<Rightarrow>
             let durationNumber = Number_of duration
             in if \<not> Number_isSafeInteger durationNumber then
                  logWarning_return
                    (''Unsupported value: '' @ timestamp_toString duration
                     @ ''. Supported values: [-9007199254740991-9007199254740991]'')
                    (timestamp_toString duration)
                else ([], momentConverter (integer_value durationNumber) freqParam))"

definition formatPeriod :: "timestamp \<Rightarrow> field option \<Rightarrow> logged" where
  "formatPeriod duration fld =
     (case fld of
        None \<Rightarrow> logWarning_return ''Field information is missing'' (timestamp_toString duration)
      | Some f \<Rightarrow>
          (case (metadata_get f ''ARROW:extension:name'',
                 metadata_get f ''ARROW:extension:metadata'') of
             (Some extensionName, Some extensionMetadata) \<Rightarrow>
               if extensionName \<noteq> ''pandas.period'' then
                 logWarning_return
                   (''Unsupported extension name for period type: '' @ extensionName)
                   (timestamp_toString duration)
               else
                 (case JSON_parse extensionMetadata of
                    Inl e \<Rightarrow> throws e
                  | Inr JNull \<Rightarrow> throws TypeError
                  | Inr (JObject ms) \<Rightarrow>
                      (case json_get ms ''freq'' of
                         Some (JString freq) \<Rightarrow> formatPeriodFromFreq duration freq
                       | _ \<Rightarrow> throws TypeError)
                  | Inr _ \<Rightarrow> throws TypeError)
           | _ \<Rightarrow>
               logWarning_return ''Arrow extension metadata is missing''
                 (timestamp_toString duration)))"


section \<open>Date, time, datetime, duration and float formatting\<close>

fun number_mul :: "number \<Rightarrow> number \<Rightarrow> number" where
  \<comment> \<open>the operator \<open>*\<close> on numbers\<close>
  "number_mul NaN _ = NaN"
| "number_mul _ NaN = NaN"
| "number_mul (Fin a) (Fin b) = round_double (a * b)"
| "number_mul (Fin a) PosInf = (if a = 0 then NaN else if 0 < a then PosInf else NegInf)"
| "number_mul (Fin a) NegInf = (if a = 0 then NaN else if 0 < a then NegInf else PosInf)"
| "number_mul PosInf (Fin b) = (if b = 0 then NaN else if 0 < b then PosInf else NegInf)"
| "number_mul NegInf (Fin b) = (if b = 0 then NaN else if 0 < b then NegInf else PosInf)"
| "number_mul PosInf PosInf = PosInf"
| "number_mul NegInf NegInf = PosInf"
| "number_mul _ _ = NegInf"

fun moment_of_number :: "number \<Rightarrow> moment" where
  \<comment> \<open>the moment of a time value given as a number: the fraction is cut off, and a value
     that is not finite or out of range is an invalid date\<close>
  "moment_of_number (Fin r) = time_clip (if 0 \<le> r then \<lfloor>r\<rfloor> else - \<lfloor>- r\<rfloor>)"
| "moment_of_number _ = None"

fun remainder_one_is_zero :: "number \<Rightarrow> bool" where
  \<comment> \<open>\<open>x % 1 === 0\<close>\<close>
  "remainder_one_is_zero (Fin r) = is_integral r"
| "remainder_one_is_zero _ = False"

definition field_unit :: "field option \<Rightarrow> number option" where
  \<comment> \<open>\<open>field?.type?.unit\<close>\<close>
  "field_unit fld = (case fld of None \<Rightarrow> None | Some f \<Rightarrow> type_unit f)"

definition formatTime :: "timestamp \<Rightarrow> field option \<Rightarrow> js_error + string" where
  "formatTime ts fld =
     (case convertTimestampToSeconds ts
             (case field_unit fld of None \<Rightarrow> TimeUnit_SECOND | Some u \<Rightarrow> u) of
        Inl e \<Rightarrow> Inl e
      | Inr timeInSeconds \<Rightarrow>
          Inr (moment_format (moment_of_number (number_mul timeInSeconds (Fin 1000)))
                 (if remainder_one_is_zero timeInSeconds
                  then [HH, Lit '':'', Mi, Lit '':'', SS]
                  else [HH, Lit '':'', Mi, Lit '':'', SS, Lit ''.'', SSS])))"

definition formatDate :: "libs \<Rightarrow> DataType \<Rightarrow> logged" where
  "formatDate L date =
     (case date of
        Date t \<Rightarrow> returns (moment_format (time_clip t) fmt_date)
      | Num (Fin r) \<Rightarrow> returns (moment_format (moment_of_number (Fin r)) fmt_date)
      | _ \<Rightarrow> logWarning_return (''Unsupported date type: '' @ JS_String L date) (JS_String L date))"

definition formatDatetime :: "libs \<Rightarrow> moment \<Rightarrow> field option \<Rightarrow> string" where
  \<comment> \<open>the first argument after the libraries is \<open>moment.utc(date)\<close>\<close>
  "formatDatetime L datetime fld =
     (case (case fld of None \<Rightarrow> None | Some f \<Rightarrow> type_timezone f) of
        None \<Rightarrow> moment_format datetime fmt_seconds
      | Some timezone \<Rightarrow>
          if timezone = [] then moment_format datetime fmt_seconds
          else format_in_zone L timezone datetime)"

definition formatDuration :: "libs \<Rightarrow> timestamp \<Rightarrow> field option \<Rightarrow> js_error + string" where
  "formatDuration L duration fld =
     (case convertTimestampToSeconds duration
             (case field_unit fld of None \<Rightarrow> TimeUnit_NANOSECOND | Some u \<Rightarrow> u) of
        Inl e \<Rightarrow> Inl e
      | Inr seconds \<Rightarrow> Inr (humanize L seconds))"

definition formatFloat :: "libs \<Rightarrow> number \<Rightarrow> string" where
  "formatFloat L num =
     (case num of Fin r \<Rightarrow> numbro_format L r | _ \<Rightarrow> Number_toString num)"

section \<open>Interval formatting and the dispatcher\<close>

definition get_member :: "(string \<times> DataType) list \<Rightarrow> string \<Rightarrow> DataType" where
  \<comment> \<open>a property of the object a \<open>StructRow\<close> converts to\<close>
  "get_member kvs k = (case map_of kvs k of None \<Rightarrow> Undefined | Some v \<Rightarrow> v)"

fun toJSON_bounds :: "DataType \<Rightarrow> js_error + DataType \<times> DataType" where
  \<comment> \<open>\<open>x.toJSON()\<close> and then its \<open>left\<close> and \<open>right\<close>: a value without \<open>toJSON\<close> is a
     TypeError, an array or a string has neither property\<close>
  "toJSON_bounds (StructRow kvs) = Inr (get_member kvs ''left'', get_member kvs ''right'')"
| "toJSON_bounds (Vector xs) = Inr (Undefined, Undefined)"
| "toJSON_bounds (Date t) = Inr (Undefined, Undefined)"
| "toJSON_bounds _ = Inl TypeError"

definition child :: "field \<Rightarrow> nat \<Rightarrow> field option" where
  \<comment> \<open>\<open>field.type?.children?.[i]\<close>\<close>
  "child f i = (if i < length (type_children f) then Some (type_children f ! i) else None)"

text \<open>
  \<open>OutsideDeclaredType\<close> marks the places where a value is outside the TypeScript type the
  source declares for it or casts it to (a period or a duration that is neither a number
  nor a bigint, a decimal that is not a \<open>Uint32Array\<close>, an interval subtype that is not a
  string, an \<open>undefined\<close> returned as a string); what JavaScript does from there on is not
  modelled.
\<close>

definition OutsideDeclaredType :: js_error where
  "OutsideDeclaredType = Error ''outside the declared type''"

fun as_timestamp :: "DataType \<Rightarrow> timestamp option" where
  "as_timestamp (Num n) = Some (TNumber n)"
| "as_timestamp (BigInt b) = Some (TBigInt b)"
| "as_timestamp _ = None"

fun is_date_like :: "DataType \<Rightarrow> bool" where
  \<comment> \<open>\<open>x instanceof Date || Number.isFinite(x)\<close>\<close>
  "is_date_like (Date t) = True"
| "is_date_like (Num n) = Number_isFinite n"
| "is_date_like _ = False"

fun moment_utc :: "DataType \<Rightarrow> moment" where
  \<comment> \<open>\<open>moment.utc(x)\<close> for a \<open>Date\<close> or a number\<close>
  "moment_utc (Date t) = time_clip t"
| "moment_utc (Num n) = moment_of_number n"
| "moment_utc _ = None"

definition name_is :: "string option \<Rightarrow> string \<Rightarrow> bool" where
  \<comment> \<open>\<open>typeName === s\<close>\<close>
  "name_is typeName s = (typeName = Some s)"

definition name_startsWith :: "string option \<Rightarrow> string \<Rightarrow> bool" where
  \<comment> \<open>\<open>typeName?.startsWith(s)\<close> as a condition\<close>
  "name_startsWith typeName s = (case typeName of None \<Rightarrow> False | Some n \<Rightarrow> startsWith n s)"

definition extension_name :: "field option \<Rightarrow> string option" where
  \<comment> \<open>\<open>field && field.metadata.get("ARROW:extension:name")\<close>\<close>
  "extension_name fld =
     (case fld of None \<Rightarrow> None | Some f \<Rightarrow> metadata_get f ''ARROW:extension:name'')"

definition field_is :: "field option \<Rightarrow> arrow_class \<Rightarrow> bool" where
  \<comment> \<open>\<open>field?.type instanceof C\<close>\<close>
  "field_is fld c = (case fld of None \<Rightarrow> False | Some f \<Rightarrow> type_kind f = c)"

lemma size_get_member:
  "size (get_member kvs k) < Suc (size_list (size_prod (\<lambda>_. 0) size) kvs)"
proof (induction kvs)
  case Nil
  then show ?case by (simp add: get_member_def)
next
  case (Cons kv kvs)
  then show ?case by (cases kv) (auto simp: get_member_def split: option.splits)
qed

definition nesting_rank :: "DataType \<Rightarrow> nat" where
  \<comment> \<open>the measure of the recursion of \<open>format\<close>: it falls from an interval to its bounds\<close>
  "nesting_rank x = (if isNullOrUndefined x then 0 else Suc (size x))"

lemma toJSON_bounds_rank:
  "toJSON_bounds x = Inr (a, b) \<Longrightarrow> nesting_rank a < nesting_rank x \<and> nesting_rank b < nesting_rank x"
proof (cases x)
  case (StructRow kvs)
  assume "toJSON_bounds x = Inr (a, b)"
  with StructRow have ab: "a = get_member kvs ''left''" "b = get_member kvs ''right''"
    by simp_all
  have "size a < size x" "size b < size x"
    using StructRow ab size_get_member [of kvs] by simp_all
  then show ?thesis
    using StructRow by (simp add: nesting_rank_def)
qed (auto simp: nesting_rank_def)

text \<open>
  The dispatcher \<open>format\<close> and \<open>formatInterval\<close>, which calls it on the two bounds. The
  second argument of \<open>format\<close> is the type name, the value of
  \<open>type && getTypeName(type)\<close>, taken as a parameter: \<open>getTypeName\<close> of the repository's
  \<open>arrowTypeUtils\<close> is not among the sources. By the specification it answers with one of
  the two tags of the type, which for the bounds of an interval are both the subtype.
\<close>

function format :: "libs \<Rightarrow> DataType \<Rightarrow> string option \<Rightarrow> field option \<Rightarrow> logged"
  and formatInterval :: "libs \<Rightarrow> DataType \<Rightarrow> field option \<Rightarrow> logged" where
  "format L x typeName fld =
     (if isNullOrUndefined x then returns ''<NA>''
      else if is_date_like x \<and> name_is typeName ''date'' then formatDate L x
      else if (case x of BigInt b \<Rightarrow> True | _ \<Rightarrow> False) \<and> name_is typeName ''time'' then
        (case x of
           BigInt b \<Rightarrow> ([], formatTime (TNumber (Number_of_bigint b)) fld)
         | _ \<Rightarrow> throws OutsideDeclaredType)
      else if is_date_like x
              \<and> (name_startsWith typeName ''datetime'' \<or> field_is fld Timestamp) then
        returns (formatDatetime L (moment_utc x) fld)
      else if name_startsWith typeName ''period'' \<or> extension_name fld = Some ''pandas.period''
      then
        (case as_timestamp x of
           Some duration \<Rightarrow> formatPeriod duration fld
         | None \<Rightarrow> throws OutsideDeclaredType)
      else if name_startsWith typeName ''interval'' then formatInterval L x fld
      else if name_startsWith typeName ''timedelta'' then
        (case as_timestamp x of
           Some duration \<Rightarrow> ([], formatDuration L duration fld)
         | None \<Rightarrow> throws OutsideDeclaredType)
      else if name_is typeName ''decimal'' then
        (case x of
           Uint32Array ws \<Rightarrow> returns (formatDecimal ws fld)
         | _ \<Rightarrow> throws OutsideDeclaredType)
      else if (name_is typeName ''float64'' \<or> field_is fld Float)
              \<and> (case x of Num n \<Rightarrow> Number_isFinite n | _ \<Rightarrow> False) then
        (case x of
           Num n \<Rightarrow> returns (formatFloat L n)
         | _ \<Rightarrow> throws OutsideDeclaredType)
      else if name_is typeName ''object'' \<or> name_startsWith typeName ''list'' then
        (case formatObject x fld of
           Some s \<Rightarrow> returns s
         | None \<Rightarrow> throws OutsideDeclaredType)
      else returns (JS_String L x))"
| "formatInterval L x fld =
     (case fld of
        None \<Rightarrow> returns (JS_String L x)
      | Some f \<Rightarrow>
          if metadata_get f ''ARROW:extension:name'' \<noteq> Some ''pandas.interval''
          then returns (JS_String L x)
          else
            (case (case metadata_get f ''ARROW:extension:metadata'' of
                     None \<Rightarrow> Inl SyntaxError
                   | Some md \<Rightarrow> JSON_parse md) of
               Inl e \<Rightarrow> throws e
             | Inr JNull \<Rightarrow> throws TypeError
             | Inr extensionMetadata \<Rightarrow>
                 (let ms = (case extensionMetadata of JObject ms \<Rightarrow> ms | _ \<Rightarrow> []);
                      closed = json_get ms ''closed'';
                      leftBracket =
                        (if closed = Some (JString ''both'') \<or> closed = Some (JString ''left'')
                         then ''['' else ''('');
                      rightBracket =
                        (if closed = Some (JString ''both'') \<or> closed = Some (JString ''right'')
                         then '']'' else '')'')
                  in case toJSON_bounds x of
                       Inl e \<Rightarrow> throws e
                     | Inr (left, right) \<Rightarrow>
                         (case json_get ms ''subtype'' of
                            Some (JString subtype) \<Rightarrow>
                              (case format L left (Some subtype) (child f 0) of
                                 (w1, Inl e) \<Rightarrow> (w1, Inl e)
                               | (w1, Inr leftInterval) \<Rightarrow>
                                   (case format L right (Some subtype) (child f 1) of
                                      (w2, Inl e) \<Rightarrow> (w1 @ w2, Inl e)
                                    | (w2, Inr rightInterval) \<Rightarrow>
                                        (w1 @ w2,
                                         Inr (leftBracket @ leftInterval @ '', ''
                                              @ rightInterval @ rightBracket))))
                          | _ \<Rightarrow> throws OutsideDeclaredType))))"
  by pat_completeness auto
termination
  apply (relation "measure (\<lambda>a. case a of
                      Inl (L, x, typeName, fld) \<Rightarrow> 2 * nesting_rank x + 1
                    | Inr (L, x, fld) \<Rightarrow> 2 * nesting_rank x)")
  apply (auto dest!: toJSON_bounds_rank simp: json_get_def)
  done


declare format.simps [simp del] formatInterval.simps [simp del]

definition interval_field :: "string \<Rightarrow> field" where
  \<comment> \<open>a field carrying the \<open>pandas.interval\<close> extension with the given metadata\<close>
  "interval_field md =
     Field Struct None None None []
       [(''ARROW:extension:name'', ''pandas.interval''), (''ARROW:extension:metadata'', md)]"

text \<open>
  An instance of the library parameters, for the examples. Its \<open>numbro_format\<close> is the
  rendering numbro documents for the format \<open>0,0.0000\<close>: the value rounded to four
  fractional digits, the integer part grouped in thousands.
\<close>

function group_thousands :: "string \<Rightarrow> string" where
  "group_thousands ds =
     (if length ds \<le> 3 then ds
      else group_thousands (take (length ds - 3) ds) @ '','' @ drop (length ds - 3) ds)"
  by pat_completeness auto
termination
  by (relation "measure length") auto

declare group_thousands.simps [simp del]

definition grouped_4_decimals :: "rat \<Rightarrow> string" where
  "grouped_4_decimals r =
     (let n = \<lfloor>\<bar>r\<bar> * 10000 + 1 / 2\<rfloor>
      in (if r < 0 then ''-'' else []) @ group_thousands (nat_digits (n div 10000))
         @ ''.'' @ padStart (nat_digits (n mod 10000)) 4 (CHR ''0''))"

definition example_libs :: libs where
  "example_libs =
     \<lparr>date_toString = (\<lambda>t. ''[Date]''), arrow_toString = (\<lambda>x. ''[arrow]''),
      format_in_zone = (\<lambda>z m. ''[zoned]''), humanize = (\<lambda>n. ''[duration]''),
      numbro_format = grouped_4_decimals\<rparr>"


definition struct_field :: field where
  \<comment> \<open>a field whose type is a \<open>Struct\<close>\<close>
  "struct_field = Field Struct None None None [] []"








section \<open>Properties of the timestamp unit conversion\<close>

lemma unitAdjustment_cases:
  "unitAdjustment unit = (if unit_divisor unit = 1 then None else Some (unit_divisor unit))"
  by (simp add: unitAdjustment_def unit_divisor_def TimeUnit_SECOND_def
      TimeUnit_MILLISECOND_def TimeUnit_MICROSECOND_def TimeUnit_NANOSECOND_def)

lemma unit_divisor_pos: "0 < unit_divisor unit"
  by (simp add: unit_divisor_def)

lemma bigint_div_pos:
  "0 < d \<Longrightarrow> bigint_div a d = Inr (quotient_dropping_remainder a d)"
  by (simp add: bigint_div_def quotient_dropping_remainder_def sgn_if)

lemma quotient_dropping_remainder_one: "quotient_dropping_remainder a 1 = a"
  by (simp add: quotient_dropping_remainder_def)

text \<open>
  C3. For every numeric or big-integer timestamp and every unit code, the conversion
  returns a number and never raises; it is the conversion the specification describes
  (division by 1, 1e3, 1e6, 1e9 for the four units, identity for any other unit code, and
  big-integer division with only the quotient converted when the big integer is not a
  safe integer as a number). 1000 milliseconds and 1000000000 nanoseconds are 1 second,
  and a big integer beyond the safe range converts without raising.
\<close>

theorem convertTimestampToSeconds_spec:
  "convertTimestampToSeconds ts unit = Inr (toSeconds_spec ts unit)
   \<and> convertTimestampToSeconds (TNumber (Fin 1000)) TimeUnit_MILLISECOND = Inr (Fin 1)
   \<and> convertTimestampToSeconds (TNumber (Fin 1000000000)) TimeUnit_NANOSECOND = Inr (Fin 1)
   \<and> convertTimestampToSeconds (TBigInt (2 ^ 60 + 7)) TimeUnit_NANOSECOND
       = Inr (Fin 1152921504)"
proof -
  have general: "convertTimestampToSeconds ts unit = Inr (toSeconds_spec ts unit)"
  proof (cases "unit_divisor unit = 1")
    case True
    then show ?thesis
      by (simp add: convertTimestampToSeconds_def toSeconds_spec_def unitAdjustment_cases
          quotient_dropping_remainder_one Let_def split: timestamp.splits)
  next
    case False
    then show ?thesis
      using unit_divisor_pos [of unit]
      by (simp add: convertTimestampToSeconds_def toSeconds_spec_def unitAdjustment_cases
          bigint_div_pos Let_def split: timestamp.splits)
  qed
  have ms: "convertTimestampToSeconds (TNumber (Fin 1000)) TimeUnit_MILLISECOND = Inr (Fin 1)"
    by code_simp
  have ns: "convertTimestampToSeconds (TNumber (Fin 1000000000)) TimeUnit_NANOSECOND
            = Inr (Fin 1)"
    by code_simp
  have big: "convertTimestampToSeconds (TBigInt (2 ^ 60 + 7)) TimeUnit_NANOSECOND
             = Inr (Fin 1152921504)"
    by code_simp
  from general ms ns big show ?thesis by simp
qed

section \<open>Properties of decimal formatting\<close>

text \<open>
  C2. Decimal formatting is claimed to return the decimal expansion of \<open>N / 10 ^ s\<close> for
  an unscaled integer \<open>N\<close> of either sign. For the 16-byte buffer of \<open>-5\<close> the code pads
  the digit string together with its minus sign: at scale 2 it returns \<open>-0.5\<close> where the
  expansion of \<open>-5 / 10 ^ 2\<close> is \<open>-0.05\<close>, and at scale 3 it returns \<open>0.0-5\<close> where the
  expansion is \<open>-0.005\<close>.
\<close>

theorem formatDecimal_negative_fewer_digits_than_scale:
  "bn_value [0xFFFFFFFB, 0xFFFFFFFF, 0xFFFFFFFF, 0xFFFFFFFF] = - 5
   \<and> formatDecimal [0xFFFFFFFB, 0xFFFFFFFF, 0xFFFFFFFF, 0xFFFFFFFF] (Some (scale_field 2))
       = ''-0.5''
   \<and> decimal_expansion (- 5) 2 = ''-0.05''
   \<and> formatDecimal [0xFFFFFFFB, 0xFFFFFFFF, 0xFFFFFFFF, 0xFFFFFFFF] (Some (scale_field 3))
       = ''0.0-5''
   \<and> decimal_expansion (- 5) 3 = ''-0.005''"
  by code_simp

section \<open>Properties of the dispatcher\<close>


lemma convertTimestampToSeconds_number:
  "convertTimestampToSeconds (TNumber n) unit =
     Inr (case unitAdjustment unit of
            None \<Rightarrow> n
          | Some adj \<Rightarrow> number_div n (Fin (of_int adj)))"
  by (simp add: convertTimestampToSeconds_def split: option.splits)

text \<open>
  C8. For every type name and every field, \<open>format\<close> applied to \<open>null\<close> or to
  \<open>undefined\<close> returns the marker \<open><NA>\<close> and logs nothing: the rule comes before every
  other rule of the dispatcher.
\<close>

theorem format_null_or_undefined:
  "format L Null typeName fld = ([], Inr ''<NA>'')
   \<and> format L Undefined typeName fld = ([], Inr ''<NA>'')"
  by (simp add: format.simps returns_def)

text \<open>
  C9. For every bigint with the type name \<open>time\<close>, the dispatcher converts the bigint to a
  number and gives that number to the time formatter, so the result is the time
  formatter's on \<open>Number(b)\<close>; the unit conversion then takes its floating-point path for
  every unit, never the big-integer division, also beyond the safe-integer threshold:
  2^60 nanoseconds render with the milliseconds of the floating-point quotient, where the
  big-integer division gives whole seconds.
\<close>

theorem format_time_converts_bigint_first:
  "format L (BigInt b) (Some ''time'') fld = ([], formatTime (TNumber (Number_of_bigint b)) fld)
   \<and> convertTimestampToSeconds (TNumber (Number_of_bigint b)) unit =
       Inr (case unitAdjustment unit of
              None \<Rightarrow> Number_of_bigint b
            | Some adj \<Rightarrow> number_div (Number_of_bigint b) (Fin (of_int adj)))
   \<and> \<not> Number_isSafeInteger (Number_of_bigint (2 ^ 60))
   \<and> format L (BigInt (2 ^ 60)) (Some ''time'')
         (Some (Field OtherType (Some TimeUnit_NANOSECOND) None None [] []))
       = ([], Inr ''23:58:24.606'')
   \<and> convertTimestampToSeconds (TBigInt (2 ^ 60)) TimeUnit_NANOSECOND = Inr (Fin 1152921504)"
proof -
  have dispatch: "format L (BigInt b) (Some ''time'') fld
      = ([], formatTime (TNumber (Number_of_bigint b)) fld)" for b fld
    by (simp add: format.simps name_is_def)
  have float_path: "convertTimestampToSeconds (TNumber (Number_of_bigint b)) unit =
       Inr (case unitAdjustment unit of
              None \<Rightarrow> Number_of_bigint b
            | Some adj \<Rightarrow> number_div (Number_of_bigint b) (Fin (of_int adj)))"
    by (rule convertTimestampToSeconds_number)
  have unsafe: "\<not> Number_isSafeInteger (Number_of_bigint (2 ^ 60))"
    by code_simp
  have rendered: "formatTime (TNumber (Number_of_bigint (2 ^ 60)))
         (Some (Field OtherType (Some TimeUnit_NANOSECOND) None None [] []))
       = Inr ''23:58:24.606''"
    by code_simp
  have whole: "convertTimestampToSeconds (TBigInt (2 ^ 60)) TimeUnit_NANOSECOND
       = Inr (Fin 1152921504)"
    by code_simp
  have shown: "format L (BigInt (2 ^ 60)) (Some ''time'')
         (Some (Field OtherType (Some TimeUnit_NANOSECOND) None None [] []))
       = ([], Inr ''23:58:24.606'')"
    by (simp only: dispatch rendered)
  from dispatch [of b fld] float_path unsafe shown whole show ?thesis
    by (intro conjI)
qed

section \<open>Properties of period formatting\<close>




section \<open>Properties of object formatting\<close>

text \<open>
  C10, as the code has it. With a \<open>Struct\<close> field, a property whose value is \<open>null\<close> or
  \<open>undefined\<close> is left out of its object, at every depth, while a \<open>null\<close> or \<open>undefined\<close>
  element of an array is serialized as \<open>null\<close>. With any other field, or none, a \<open>null\<close>
  property and a \<open>null\<close> element are serialized as \<open>null\<close>, an \<open>undefined\<close> property is
  left out and an \<open>undefined\<close> element is \<open>null\<close>. A bigint is serialized as the number it
  converts to in both cases. The struct value \<open>{a: null, b: 1}\<close> gives \<open>{"b":1}\<close>.
\<close>

theorem formatObject_null_handling:
  "formatObject x fld = serialize (field_is fld Struct) x
   \<and> serialize_members True ((k, Null) # kvs) = serialize_members True kvs
   \<and> serialize_members True ((k, Undefined) # kvs) = serialize_members True kvs
   \<and> serialize_elements True (Null # xs) = ''null'' # serialize_elements True xs
   \<and> serialize_elements True (Undefined # xs) = ''null'' # serialize_elements True xs
   \<and> serialize_members False ((k, Null) # kvs)
       = (quote k @ '':null'') # serialize_members False kvs
   \<and> serialize_members False ((k, Undefined) # kvs) = serialize_members False kvs
   \<and> serialize_elements False (Null # xs) = ''null'' # serialize_elements False xs
   \<and> serialize_elements False (Undefined # xs) = ''null'' # serialize_elements False xs
   \<and> serialize d (BigInt b) = serialize d (Num (Number_of_bigint b))
   \<and> formatObject (StructRow [(''a'', Null), (''b'', Num (Fin 1))]) (Some struct_field)
       = Some ''{\"b\":1}''
   \<and> formatObject (StructRow [(''a'', Null), (''b'', Num (Fin 1))]) None
       = Some ''{\"a\":null,\"b\":1}''"
proof -
  have dispatch: "formatObject x fld = serialize (field_is fld Struct) x"
    by (simp add: formatObject_def field_is_def split: option.splits)
  have ex1: "formatObject (StructRow [(''a'', Null), (''b'', Num (Fin 1))]) (Some struct_field)
       = Some ''{\"b\":1}''"
    by code_simp
  have ex2: "formatObject (StructRow [(''a'', Null), (''b'', Num (Fin 1))]) None
       = Some ''{\"a\":null,\"b\":1}''"
    by code_simp
  show ?thesis
    using dispatch ex1 ex2 by simp
qed

text \<open>
  C10 as stated fails on the code twice: with a \<open>Struct\<close> field a \<open>null\<close> leaf that is an
  element of an array is not left out, and without a \<open>Struct\<close> field an \<open>undefined\<close>
  property is left out all the same.
\<close>

theorem formatObject_null_handling_counterexample:
  "formatObject (StructRow [(''a'', Vector [Null, Num (Fin 1)])]) (Some struct_field)
     = Some ''{\"a\":[null,1]}''
   \<and> formatObject (StructRow [(''a'', Undefined), (''b'', Num (Fin 1))]) None
     = Some ''{\"b\":1}''"
  by code_simp

section \<open>Properties of float formatting\<close>




section \<open>Properties of interval formatting\<close>

lemma startsWith_hd:
  "startsWith s p \<Longrightarrow> p \<noteq> [] \<Longrightarrow> s \<noteq> [] \<and> hd s = hd p"
  by (cases s; cases p) (auto simp: startsWith_def)

lemma startsWith_interval_not_period:
  "name_startsWith typeName ''interval'' \<Longrightarrow> \<not> name_startsWith typeName ''period''"
  by (cases typeName) (auto simp: name_startsWith_def dest!: startsWith_hd)

text \<open>
  C4. For an interval cell (a \<open>StructRow\<close>) whose field carries the \<open>pandas.interval\<close>
  extension with metadata that parses to an object with a string \<open>subtype\<close> and a string
  \<open>closed\<close>, and whose type name starts with \<open>interval\<close>: the dispatcher formats each
  bound by calling itself with the subtype as the type name and the matching child field,
  and when both calls return, the result is the left bracket, the left bound, a comma and
  a space, the right bound and the right bracket, with the warnings of both calls; the
  left bracket is \<open>[\<close> iff \<open>closed\<close> is \<open>left\<close> or \<open>both\<close> and \<open>(\<close> otherwise, the right
  bracket is \<open>]\<close> iff \<open>closed\<close> is \<open>right\<close> or \<open>both\<close> and \<open>)\<close> otherwise.
\<close>

theorem formatInterval_brackets:
  assumes name: "name_startsWith typeName ''interval''"
    and ext: "metadata_get f ''ARROW:extension:name'' = Some ''pandas.interval''"
    and md: "metadata_get f ''ARROW:extension:metadata'' = Some md"
    and parsed: "JSON_parse md = Inr (JObject ms)"
    and subtype: "json_get ms ''subtype'' = Some (JString subtype)"
    and flag: "json_get ms ''closed'' = Some (JString flag)"
    and left: "format L (get_member kvs ''left'') (Some subtype) (child f 0) = (w1, Inr l)"
    and right: "format L (get_member kvs ''right'') (Some subtype) (child f 1) = (w2, Inr r)"
  shows "formatInterval L (StructRow kvs) (Some f) =
           (w1 @ w2,
            Inr ((if flag = ''left'' \<or> flag = ''both'' then ''['' else ''('')
                 @ l @ '', '' @ r
                 @ (if flag = ''right'' \<or> flag = ''both'' then '']'' else '')'')))
         \<and> format L (StructRow kvs) typeName (Some f) = formatInterval L (StructRow kvs) (Some f)"
proof
  show "formatInterval L (StructRow kvs) (Some f) =
           (w1 @ w2,
            Inr ((if flag = ''left'' \<or> flag = ''both'' then ''['' else ''('')
                 @ l @ '', '' @ r
                 @ (if flag = ''right'' \<or> flag = ''both'' then '']'' else '')'')))"
    using ext md parsed subtype flag left right
    by (simp add: formatInterval.simps Let_def)
  show "format L (StructRow kvs) typeName (Some f) = formatInterval L (StructRow kvs) (Some f)"
    using name ext startsWith_interval_not_period [OF name]
    by (simp add: format.simps extension_name_def)
qed

theorem formatInterval_brackets_witness:
  "format example_libs (StructRow [(''left'', Num (Fin 1)), (''right'', Num (Fin 5))])
      (Some ''interval[int64, both]'')
      (Some (interval_field ''{\"subtype\": \"int64\", \"closed\": \"both\"}''))
    = ([], Inr ''[1, 5]'')
   \<and> format example_libs (StructRow [(''left'', Num (Fin 1)), (''right'', Num (Fin 5))])
      (Some ''interval[int64, neither]'')
      (Some (interval_field ''{\"subtype\": \"int64\", \"closed\": \"neither\"}''))
    = ([], Inr ''(1, 5)'')"
proof -
  let ?kvs = "[(''left'', Num (Fin 1)), (''right'', Num (Fin 5))]"
  let ?both = "''{\"subtype\": \"int64\", \"closed\": \"both\"}''"
  let ?neither = "''{\"subtype\": \"int64\", \"closed\": \"neither\"}''"
  let ?ms = "\<lambda>c. [(''subtype'', JString ''int64''), (''closed'', JString c)]"
  have n1: "name_startsWith (Some ''interval[int64, both]'') ''interval''"
    by code_simp
  have n2: "name_startsWith (Some ''interval[int64, neither]'') ''interval''"
    by code_simp
  have e1: "metadata_get (interval_field ?both) ''ARROW:extension:name'' = Some ''pandas.interval''"
    by code_simp
  have e2: "metadata_get (interval_field ?neither) ''ARROW:extension:name''
            = Some ''pandas.interval''"
    by code_simp
  have m1: "metadata_get (interval_field ?both) ''ARROW:extension:metadata'' = Some ?both"
    by code_simp
  have m2: "metadata_get (interval_field ?neither) ''ARROW:extension:metadata'' = Some ?neither"
    by code_simp
  have p1: "JSON_parse ?both = Inr (JObject (?ms ''both''))"
    by code_simp
  have p2: "JSON_parse ?neither = Inr (JObject (?ms ''neither''))"
    by code_simp
  have s: "json_get (?ms c) ''subtype'' = Some (JString ''int64'')" for c
    by (simp add: json_get_def)
  have c: "json_get (?ms c) ''closed'' = Some (JString c)" for c
    by (simp add: json_get_def)
  have ch: "child (interval_field m) i = None" for m i
    by (simp add: child_def interval_field_def)
  have l0: "format example_libs (get_member ?kvs ''left'') (Some ''int64'') None
            = ([], Inr ''1'')"
    by code_simp
  have r0: "format example_libs (get_member ?kvs ''right'') (Some ''int64'') None
            = ([], Inr ''5'')"
    by code_simp
  have l: "format example_libs (get_member ?kvs ''left'') (Some ''int64'')
             (child (interval_field m) 0) = ([], Inr ''1'')" for m
    by (simp only: ch l0)
  have r: "format example_libs (get_member ?kvs ''right'') (Some ''int64'')
             (child (interval_field m) 1) = ([], Inr ''5'')" for m
    by (simp only: ch r0)
  show ?thesis
    using formatInterval_brackets [OF n1 e1 m1 p1 s c l r]
      formatInterval_brackets [OF n2 e2 m2 p2 s c l r]
    by simp
qed

section \<open>Properties of week formatting\<close>

lemma indexOf_bounds: "indexOf xs x < int (length xs)"
  by (induction xs) (auto simp: Let_def)

lemma weekday_of_week: "weekday (n * 7 * ms_per_day) = 4"
  by (simp add: weekday_def ms_per_day_def)

lemma weekday_of_day: "weekday (d * ms_per_day) = (d + 4) mod 7"
  by (simp add: weekday_def ms_per_day_def)

text \<open>
  C6. For a weekday parameter among \<open>SUN\<close> to \<open>SAT\<close> and a duration whose weeks lie in
  the range of dates, the week formatter returns the ISO date of a start day, a slash and
  the ISO date of an end day; the end day falls on the weekday of the parameter and the
  range spans exactly 7 days inclusive. At duration 0 with \<open>SUN\<close> the result is
  \<open>1969-12-22/1969-12-28\<close>.
\<close>

theorem formatWeeks_range:
  assumes anchor: "0 \<le> indexOf WEEKDAY_SHORT p"
    and range: "\<bar>duration\<bar> \<le> 14285712"
  shows "\<exists>start end.
           formatWeeks duration (Some p)
             = Inr (moment_format (Some (start * ms_per_day)) fmt_date @ ''/''
                    @ moment_format (Some (end * ms_per_day)) fmt_date)
           \<and> weekday (end * ms_per_day) = indexOf WEEKDAY_SHORT p
           \<and> end - start + 1 = 7"
proof -
  define i where "i = indexOf WEEKDAY_SHORT p"
  have i: "0 \<le> i" "i < 7"
    using anchor indexOf_bounds [of WEEKDAY_SHORT p] by (simp_all add: i_def WEEKDAY_SHORT_def)
  have p: "p \<noteq> []"
  proof
    assume "p = []"
    then have "indexOf WEEKDAY_SHORT p = - 1"
      by (simp add: WEEKDAY_SHORT_def)
    with anchor show False by simp
  qed
  define e where "e = duration * 7 + i - 4"
  define s where "s = e - 6"
  have week: "moment_add moment_epoch duration Weeks = Some (duration * 7 * ms_per_day)"
    using range by (simp add: moment_epoch_def time_clip_def ms_per_day_def max_time_value_def)
  have wd4: "weekday (duration * 7 * ms_per_day) = 4"
    by (rule weekday_of_week)
  have clip: "time_clip (d * ms_per_day) = Some (d * ms_per_day)" if "\<bar>d\<bar> \<le> 100000000" for d
    using that by (simp add: time_clip_def ms_per_day_def max_time_value_def)
  have "moment_day (Some (duration * 7 * ms_per_day)) i
        = time_clip (duration * 7 * ms_per_day + (i - 4) * ms_per_day)"
    by (simp add: wd4)
  also have "duration * 7 * ms_per_day + (i - 4) * ms_per_day = e * ms_per_day"
    by (simp add: e_def algebra_simps)
  also have "time_clip (e * ms_per_day) = Some (e * ms_per_day)"
    using range i by (intro clip) (simp add: e_def)
  finally have end_day: "moment_day (Some (duration * 7 * ms_per_day)) i = Some (e * ms_per_day)" .
  have "moment_day (Some (duration * 7 * ms_per_day)) (i - 6)
        = time_clip (duration * 7 * ms_per_day + (i - 6 - 4) * ms_per_day)"
    by (simp add: wd4)
  also have "duration * 7 * ms_per_day + (i - 6 - 4) * ms_per_day = s * ms_per_day"
    by (simp add: e_def s_def algebra_simps)
  also have "time_clip (s * ms_per_day) = Some (s * ms_per_day)"
    using range i by (intro clip) (simp add: e_def s_def)
  finally have start_day:
    "moment_day (Some (duration * 7 * ms_per_day)) (i - 6) = Some (s * ms_per_day)" .
  have result: "formatWeeks duration (Some p)
      = Inr (moment_format (Some (s * ms_per_day)) fmt_date @ ''/''
             @ moment_format (Some (e * ms_per_day)) fmt_date)"
    using p i
    by (simp add: formatWeeks_def Let_def week end_day start_day i_def [symmetric]
        del: moment_day.simps)
  have wd: "weekday (e * ms_per_day) = i"
    using i by (simp add: weekday_of_day e_def)
  have "e - s + 1 = 7"
    by (simp add: s_def)
  with result wd show ?thesis
    unfolding i_def by blast
qed

theorem formatWeeks_range_witness:
  "indexOf WEEKDAY_SHORT ''SUN'' = 0
   \<and> formatWeeks 0 (Some ''SUN'') = Inr ''1969-12-22/1969-12-28''
   \<and> formatPeriodFromFreq (TBigInt 0) ''W-SUN'' = ([], Inr ''1969-12-22/1969-12-28'')
   \<and> moment_format (Some (- 4 * ms_per_day)) fmt_date = ''1969-12-28''
   \<and> weekday (- 4 * ms_per_day) = 0
   \<and> moment_format (Some (- 10 * ms_per_day)) fmt_date = ''1969-12-22''
   \<and> (\<exists>start end.
         formatWeeks 0 (Some ''SUN'')
           = Inr (moment_format (Some (start * ms_per_day)) fmt_date @ ''/''
                  @ moment_format (Some (end * ms_per_day)) fmt_date)
         \<and> weekday (end * ms_per_day) = 0 \<and> end - start + 1 = 7)"
proof -
  have a: "indexOf WEEKDAY_SHORT ''SUN'' = 0"
    by code_simp
  have b: "formatWeeks 0 (Some ''SUN'') = Inr ''1969-12-22/1969-12-28''"
    by code_simp
  have c: "formatPeriodFromFreq (TBigInt 0) ''W-SUN'' = ([], Inr ''1969-12-22/1969-12-28'')"
    by code_simp
  have d: "moment_format (Some (- 4 * ms_per_day)) fmt_date = ''1969-12-28''"
    by code_simp
  have e: "weekday (- 4 * ms_per_day) = 0"
    by code_simp
  have f: "moment_format (Some (- 10 * ms_per_day)) fmt_date = ''1969-12-22''"
    by code_simp
  have g: "\<exists>start end.
         formatWeeks 0 (Some ''SUN'')
           = Inr (moment_format (Some (start * ms_per_day)) fmt_date @ ''/''
                  @ moment_format (Some (end * ms_per_day)) fmt_date)
         \<and> weekday (end * ms_per_day) = 0 \<and> end - start + 1 = 7"
    using formatWeeks_range [of "''SUN''" 0] by (simp add: a)
  from a b c d e f g show ?thesis
    by (intro conjI)
qed

section \<open>Where the formatters raise\<close>















section \<open>Where decimal formatting agrees with the decimal expansion\<close>

lemma digit_char_not_minus: "0 \<le> d \<Longrightarrow> d < 10 \<Longrightarrow> digit_char d \<noteq> CHR ''-''"
proof -
  assume "0 \<le> d" "d < 10"
  then have "nat d < length ''0123456789''"
    by simp
  then have "''0123456789'' ! nat d \<in> set ''0123456789''"
    by (rule nth_mem)
  then show ?thesis
    by (auto simp: digit_char_def)
qed

lemma nat_digits_hd: "0 \<le> n \<Longrightarrow> nat_digits n \<noteq> [] \<and> hd (nat_digits n) \<noteq> CHR ''-''"
proof (induction n rule: nat_digits.induct)
  case (1 n)
  show ?case
  proof (cases "n < 10")
    case True
    with "1.prems" show ?thesis
      by (subst (1 2) nat_digits.simps) (simp add: digit_char_not_minus)
  next
    case False
    with "1.prems" "1.IH" have "nat_digits (n div 10) \<noteq> [] \<and> hd (nat_digits (n div 10)) \<noteq> CHR ''-''"
      by simp
    with False show ?thesis
      by (subst (1 2) nat_digits.simps) simp
  qed
qed

lemma padStart_not_minus:
  "ds \<noteq> [] \<Longrightarrow> hd ds \<noteq> CHR ''-'' \<Longrightarrow> \<not> startsWith (padStart ds n (CHR ''0'')) ''-''"
  by (cases ds; cases "nat (n - int (length ds))") (auto simp: startsWith_def padStart_def)

lemma padStart_short: "s \<le> length ds \<Longrightarrow> padStart ds (int s) c = ds"
  by (simp add: padStart_def)

lemma padStart_long:
  "length ds \<le> s \<Longrightarrow> padStart ds (int s) c = replicate (s - length ds) c @ ds"
proof -
  assume "length ds \<le> s"
  then have "nat (int s - int (length ds)) = s - length ds"
    by arith
  then show ?thesis
    by (simp add: padStart_def)
qed

lemma slice_whole: "0 < s \<Longrightarrow> slice xs 0 (- int s) = take (length xs - s) xs"
proof -
  have "nat (max (int (length xs) - int s) 0) = length xs - s"
    by arith
  then show "0 < s \<Longrightarrow> ?thesis"
    by (simp add: slice_def relative_index_def Let_def)
qed

lemma slice_from_last: "0 < s \<Longrightarrow> slice_from xs (- int s) = drop (length xs - s) xs"
proof -
  have "nat (max (int (length xs) - int s) 0) = length xs - s"
    by arith
  then show "0 < s \<Longrightarrow> ?thesis"
    by (simp add: slice_from_def relative_index_def)
qed

text \<open>
  The whole part and the fractional digits, as the code computes them from the padded
  digit string and as the specification words them.
\<close>

lemma code_parts:
  assumes "0 < s" and "numString = padStart ds (int s) c \<or> (numString = ds \<and> s \<le> length ds)"
  shows "slice numString 0 (- int s) = take (length ds - s) ds"
    and "slice_from numString (- int s)
         = (if s \<le> length ds then drop (length ds - s) ds
            else replicate (s - length ds) c @ ds)"
proof -
  have num: "numString = (if s \<le> length ds then ds else replicate (s - length ds) c @ ds)"
    using assms(2) padStart_short [of s ds c] padStart_long [of ds s c] by auto
  show "slice numString 0 (- int s) = take (length ds - s) ds"
    using assms(1) by (simp add: slice_whole num)
  show "slice_from numString (- int s)
         = (if s \<le> length ds then drop (length ds - s) ds
            else replicate (s - length ds) c @ ds)"
    using assms(1) by (simp add: slice_from_last num)
qed

lemma spec_parts:
  assumes "ds \<noteq> []" and "digits = padStart ds (int s + 1) c"
  shows "(if take (length digits - s) digits = [] then [c] else take (length digits - s) digits)
         = (if take (length ds - s) ds = [] then [c] else take (length ds - s) ds)"
    and "drop (length digits - s) digits
         = (if s \<le> length ds then drop (length ds - s) ds
            else replicate (s - length ds) c @ ds)"
proof -
  have digits: "digits = (if s < length ds then ds else replicate (Suc s - length ds) c @ ds)"
    using assms(2) padStart_short [of "Suc s" ds c] padStart_long [of ds "Suc s" c]
    by (auto simp: add.commute)
  show "(if take (length digits - s) digits = [] then [c] else take (length digits - s) digits)
         = (if take (length ds - s) ds = [] then [c] else take (length ds - s) ds)"
  proof (cases "s < length ds")
    case True
    then show ?thesis by (simp add: digits)
  next
    case False
    then have "Suc s - length ds = Suc (s - length ds)"
      by simp
    with False show ?thesis
      by (simp add: digits)
  qed
  show "drop (length digits - s) digits
         = (if s \<le> length ds then drop (length ds - s) ds
            else replicate (s - length ds) c @ ds)"
  proof (cases "s < length ds")
    case True
    then show ?thesis by (simp add: digits)
  next
    case False
    then have "Suc s - length ds = Suc (s - length ds)"
      by simp
    with False show ?thesis
      by (simp add: digits)
  qed
qed

text \<open>
  Where decimal formatting is right: for every buffer holding \<open>N \<ge> 0\<close>, and for every
  negative \<open>N\<close> with at least as many digits as the scale, the code returns the decimal
  expansion of \<open>N / 10 ^ s\<close>.
\<close>

lemma formatDecimal_expansion:
  assumes "0 \<le> bn_value ws \<or> s \<le> length (nat_digits \<bar>bn_value ws\<bar>)"
  shows "formatDecimal ws (Some (scale_field (int s))) = decimal_expansion (bn_value ws) s"
proof -
  define N where "N = bn_value ws"
  define ds where "ds = nat_digits \<bar>N\<bar>"
  define sign where "sign = (if N < 0 then ''-'' else [])"
  have ds: "ds \<noteq> []" "hd ds \<noteq> CHR ''-''"
    using nat_digits_hd [of "\<bar>N\<bar>"] by (simp_all add: ds_def)
  have str: "bigNumToString ws = sign @ ds"
    by (simp add: bigNumToString_def bigint_toString_def N_def ds_def sign_def abs_if)
  show ?thesis
  proof (cases "s = 0")
    case True
    have code: "formatDecimal ws (Some (scale_field (int s))) = sign @ ds"
      using True by (simp add: formatDecimal_def scale_field_def padStart_def str Let_def)
    have "padStart ds 1 (CHR ''0'') = ds"
      using ds(1) padStart_short [of 1 ds] by (cases ds) simp_all
    then have "decimal_expansion N s = sign @ ds"
      using True ds(1) by (simp add: decimal_expansion_def ds_def sign_def trimEnd_def Let_def)
    with code show ?thesis
      by (simp add: N_def)
  next
    case False
    then have s: "0 < s" by simp
    define w where "w = take (length ds - s) ds"
    define f where "f = trimEnd (if s \<le> length ds then drop (length ds - s) ds
                                 else replicate (s - length ds) (CHR ''0'') @ ds) (CHR ''0'')"
    have spec: "decimal_expansion N s
        = sign @ (if w = [] then ''0'' else w) @ (if f = [] then [] else ''.'' @ f)"
      using spec_parts [OF ds(1) refl, of s "CHR ''0''"]
      by (simp add: decimal_expansion_def ds_def [symmetric] sign_def w_def f_def Let_def)
    have code: "formatDecimal ws (Some (scale_field (int s)))
        = sign @ (if w = [] then ''0'' else w) @ (if f = [] then [] else ''.'' @ f)"
    proof (cases "0 \<le> N")
      case True
      then have sign: "sign = []"
        by (simp add: sign_def)
      have nominus: "\<not> startsWith (padStart ds (int s) (CHR ''0'')) ''-''"
        using ds by (rule padStart_not_minus)
      have parts: "slice (padStart ds (int s) (CHR ''0'')) 0 (- int s) = w"
        "trimEnd (slice_from (padStart ds (int s) (CHR ''0'')) (- int s)) (CHR ''0'') = f"
        using code_parts [OF s, of "padStart ds (int s) (CHR ''0'')" ds "CHR ''0''"]
        by (simp_all add: w_def f_def)
      show ?thesis
        using s nominus
        by (simp add: formatDecimal_def scale_field_def str sign parts Let_def)
    next
      case False
      then have sign: "sign = ''-''"
        by (simp add: sign_def)
      from False assms have len: "s \<le> length ds"
        by (simp add: N_def ds_def)
      have pad: "padStart (CHR ''-'' # ds) (int s) (CHR ''0'') = CHR ''-'' # ds"
        using len by (simp add: padStart_def)
      have strip: "slice_from (CHR ''-'' # ds) 1 = ds"
        by (simp add: slice_from_def relative_index_def)
      have parts: "slice ds 0 (- int s) = w"
        "trimEnd (slice_from ds (- int s)) (CHR ''0'') = f"
        using code_parts [OF s, of ds ds "CHR ''0''"] len
        by (simp_all add: w_def f_def)
      show ?thesis
        using s
        by (simp add: formatDecimal_def scale_field_def str sign pad strip parts startsWith_def
            Let_def)
    qed
    from code spec show ?thesis
      by (simp add: N_def)
  qed
qed

end
